theory Spec2Isabelle
  imports Complex_Main
begin

section \<open>JavaScript values\<close>

text \<open>
  The simulator is JavaScript, so the model starts from the values of that language.
  A number is an IEEE double; the model keeps the real it denotes and the three special
  values. Both zeros are \<open>Fin 0\<close>, and arithmetic on finite numbers is exact (the
  rounding of doubles and the sign of zero are not modelled), which agrees with
  JavaScript on the integers below \<open>2^53\<close>. A string is a list of characters with
  codes below 256.
\<close>

datatype jsnum = Fin real | PInf | NInf | NaN

text \<open>
  \<open>Conn c p\<close> is the object \<open>{ componentId: c, pinName: p }\<close>; \<open>Obj d\<close> is any
  other host object (a function of \<open>Object.prototype\<close>, a regular expression), known
  by the string \<open>d\<close> it converts to.
\<close>

datatype jsval =
    Num jsnum
  | Str string
  | Bool bool
  | Undefined
  | Null
  | Conn jsval jsval
  | Obj string

text \<open>A value as \<open>JSON\<close> sees it; \<open>JUndefined\<close> is a property that is not there.\<close>

datatype json =
    JNull
  | JBool bool
  | JNum jsnum
  | JStr string
  | JArr "json list"
  | JObj "(string \<times> json) list"
  | JUndefined

text \<open>
  What the JavaScript engine and the browser provide and the repository only calls:
  \<open>strToNum\<close> is \<open>Number(s)\<close> on a string; \<open>numStr\<close> is \<open>String(x)\<close> on a
  finite number that is not an integer below \<open>10^21\<close>; \<open>mathPow\<close> and \<open>mathSqrt\<close> are \<open>Math.pow\<close> and \<open>Math.sqrt\<close>;
  \<open>mathRandom k\<close> is what the \<open>k\<close>-th call of \<open>Math.random()\<close> returns;
  \<open>hostEval s\<close> is \<open>Function('"use strict"; return (' + s + ')')()\<close>, with \<open>Inl\<close> the
  message of the exception if it throws; \<open>hostReplace name r s\<close> is
  \<open>s.replace(new RegExp('\\b' + name + '\\b', 'g'), r)\<close> for a name that is not made of
  word characters only; \<open>objEq\<close> is the identity of two host objects; \<open>timeout d\<close> is the
  time in milliseconds after which a timer set by \<open>setTimeout(f, d)\<close> fires;
  \<open>jsonStringify v\<close> is \<open>JSON.stringify(v, null, 2)\<close> and \<open>jsonParse s\<close> is
  \<open>JSON.parse(s)\<close>, with \<open>Inl\<close> the message of the exception if it throws.
\<close>

record host =
  strToNum :: "string \<Rightarrow> jsnum"
  numStr :: "real \<Rightarrow> string"
  mathPow :: "jsnum \<Rightarrow> jsnum \<Rightarrow> jsnum"
  mathSqrt :: "jsnum \<Rightarrow> jsnum"
  mathRandom :: "nat \<Rightarrow> real"
  hostEval :: "string \<Rightarrow> string + jsval"
  hostReplace :: "string \<Rightarrow> string \<Rightarrow> string \<Rightarrow> string + string"
  objEq :: "string \<Rightarrow> string \<Rightarrow> bool"
  timeout :: "jsnum \<Rightarrow> real"
  jsonStringify :: "json \<Rightarrow> string"
  jsonParse :: "string \<Rightarrow> string + json"

definition dq :: char where
  "dq = CHR 0x22"

definition sq :: char where
  "sq = CHR 0x27"

definition backslash :: char where
  "backslash = CHR 0x5C"

definition newline :: char where
  "newline = CHR 0x0A"

definition tab :: char where
  "tab = CHR 0x09"

definition digitChar :: "nat \<Rightarrow> char" where
  "digitChar d = ''0123456789'' ! d"

function natStr :: "nat \<Rightarrow> string" where
  "natStr n = (if n < 10 then [digitChar n] else natStr (n div 10) @ [digitChar (n mod 10)])"
  by pat_completeness auto
termination
  by (relation "measure id") auto

declare natStr.simps [simp del]

definition intStr :: "int \<Rightarrow> string" where
  "intStr i = (if i < 0 then CHR ''-'' # natStr (nat (- i)) else natStr (nat i))"

text \<open>\<open>String(x)\<close> for a number.\<close>

definition numToString :: "host \<Rightarrow> jsnum \<Rightarrow> string" where
  "numToString h x =
     (case x of
        NaN \<Rightarrow> ''NaN''
      | PInf \<Rightarrow> ''Infinity''
      | NInf \<Rightarrow> ''-Infinity''
      | Fin r \<Rightarrow>
          (if r = of_int \<lfloor>r\<rfloor> \<and> \<bar>r\<bar> < 10 ^ 21 then intStr \<lfloor>r\<rfloor> else numStr h r))"

text \<open>\<open>String(v)\<close>, which is also the key under which \<open>obj[v]\<close> looks \<open>v\<close> up.\<close>

fun toStr :: "host \<Rightarrow> jsval \<Rightarrow> string" where
  "toStr h (Num x) = numToString h x"
| "toStr h (Str s) = s"
| "toStr h (Bool b) = (if b then ''true'' else ''false'')"
| "toStr h Undefined = ''undefined''"
| "toStr h Null = ''null''"
| "toStr h (Conn c p) = ''[object Object]''"
| "toStr h (Obj d) = d"

text \<open>\<open>ToBoolean\<close>.\<close>

fun truthy :: "jsval \<Rightarrow> bool" where
  "truthy (Num (Fin r)) = (r \<noteq> 0)"
| "truthy (Num PInf) = True"
| "truthy (Num NInf) = True"
| "truthy (Num NaN) = False"
| "truthy (Str s) = (s \<noteq> [])"
| "truthy (Bool b) = b"
| "truthy Undefined = False"
| "truthy Null = False"
| "truthy (Conn c p) = True"
| "truthy (Obj d) = True"

text \<open>\<open>ToNumber\<close>. An object converts to its string first.\<close>

fun toNumber :: "host \<Rightarrow> jsval \<Rightarrow> jsnum" where
  "toNumber h (Num x) = x"
| "toNumber h (Str s) = strToNum h s"
| "toNumber h (Bool b) = Fin (if b then 1 else 0)"
| "toNumber h Undefined = NaN"
| "toNumber h Null = Fin 0"
| "toNumber h (Conn c p) = strToNum h ''[object Object]''"
| "toNumber h (Obj d) = strToNum h d"

text \<open>Whether \<open>ToPrimitive\<close> yields a string.\<close>

fun stringish :: "jsval \<Rightarrow> bool" where
  "stringish (Str s) = True"
| "stringish (Conn c p) = True"
| "stringish (Obj d) = True"
| "stringish v = False"

text \<open>The order of numbers; every comparison with \<open>NaN\<close> is false.\<close>

fun numLess :: "jsnum \<Rightarrow> jsnum \<Rightarrow> bool" where
  "numLess NaN y = False"
| "numLess x NaN = False"
| "numLess (Fin a) (Fin b) = (a < b)"
| "numLess (Fin a) PInf = True"
| "numLess (Fin a) NInf = False"
| "numLess PInf y = False"
| "numLess NInf NInf = False"
| "numLess NInf y = True"

definition numEq :: "jsnum \<Rightarrow> jsnum \<Rightarrow> bool" where
  "numEq x y = (x \<noteq> NaN \<and> x = y)"

text \<open>\<open>Math.min\<close> and \<open>Math.max\<close> of two numbers: \<open>NaN\<close> if either is.\<close>

fun mathMin :: "jsnum \<Rightarrow> jsnum \<Rightarrow> jsnum" where
  "mathMin NaN y = NaN"
| "mathMin x NaN = NaN"
| "mathMin x y = (if numLess y x then y else x)"

fun mathMax :: "jsnum \<Rightarrow> jsnum \<Rightarrow> jsnum" where
  "mathMax NaN y = NaN"
| "mathMax x NaN = NaN"
| "mathMax x y = (if numLess x y then y else x)"

fun mathFloor :: "jsnum \<Rightarrow> jsnum" where
  "mathFloor (Fin r) = Fin (of_int \<lfloor>r\<rfloor>)"
| "mathFloor x = x"

fun mathRound :: "jsnum \<Rightarrow> jsnum" where
  "mathRound (Fin r) = Fin (of_int \<lfloor>r + 1 / 2\<rfloor>)"
| "mathRound x = x"

fun mathAbs :: "jsnum \<Rightarrow> jsnum" where
  "mathAbs (Fin r) = Fin \<bar>r\<bar>"
| "mathAbs NInf = PInf"
| "mathAbs x = x"

fun numNeg :: "jsnum \<Rightarrow> jsnum" where
  "numNeg (Fin r) = Fin (- r)"
| "numNeg PInf = NInf"
| "numNeg NInf = PInf"
| "numNeg NaN = NaN"

fun numAdd :: "jsnum \<Rightarrow> jsnum \<Rightarrow> jsnum" where
  "numAdd NaN y = NaN"
| "numAdd x NaN = NaN"
| "numAdd (Fin a) (Fin b) = Fin (a + b)"
| "numAdd (Fin a) y = y"
| "numAdd x (Fin b) = x"
| "numAdd x y = (if x = y then x else NaN)"

definition numSub :: "jsnum \<Rightarrow> jsnum \<Rightarrow> jsnum" where
  "numSub x y = numAdd x (numNeg y)"

text \<open>The sign of a number that is not \<open>NaN\<close>: -1, 0 or 1.\<close>

fun numSign :: "jsnum \<Rightarrow> int" where
  "numSign (Fin r) = (if r < 0 then - 1 else if r = 0 then 0 else 1)"
| "numSign PInf = 1"
| "numSign NInf = - 1"
| "numSign NaN = 0"

definition signedInf :: "int \<Rightarrow> jsnum" where
  "signedInf s = (if s = 0 then NaN else if 0 < s then PInf else NInf)"

fun numMul :: "jsnum \<Rightarrow> jsnum \<Rightarrow> jsnum" where
  "numMul NaN y = NaN"
| "numMul x NaN = NaN"
| "numMul (Fin a) (Fin b) = Fin (a * b)"
| "numMul x y = signedInf (numSign x * numSign y)"

text \<open>
  Division. A finite number divided by zero is an infinity with the sign of the
  dividend (the zero's own sign is not modelled).
\<close>

fun numDiv :: "jsnum \<Rightarrow> jsnum \<Rightarrow> jsnum" where
  "numDiv NaN y = NaN"
| "numDiv x NaN = NaN"
| "numDiv (Fin a) (Fin b) = (if b = 0 then signedInf (numSign (Fin a)) else Fin (a / b))"
| "numDiv (Fin a) y = Fin 0"
| "numDiv x (Fin b) = signedInf (numSign x * (if b < 0 then - 1 else 1))"
| "numDiv x y = NaN"

text \<open>The operators \<open>+\<close>, \<open>-\<close>, \<open>*\<close> and \<open>/\<close> on values.\<close>

definition jsAdd :: "host \<Rightarrow> jsval \<Rightarrow> jsval \<Rightarrow> jsval" where
  "jsAdd h a b =
     (if stringish a \<or> stringish b then Str (toStr h a @ toStr h b)
      else Num (numAdd (toNumber h a) (toNumber h b)))"

definition jsSub :: "host \<Rightarrow> jsval \<Rightarrow> jsval \<Rightarrow> jsval" where
  "jsSub h a b = Num (numSub (toNumber h a) (toNumber h b))"

definition jsMul :: "host \<Rightarrow> jsval \<Rightarrow> jsval \<Rightarrow> jsval" where
  "jsMul h a b = Num (numMul (toNumber h a) (toNumber h b))"

definition jsDiv :: "host \<Rightarrow> jsval \<Rightarrow> jsval \<Rightarrow> jsval" where
  "jsDiv h a b = Num (numDiv (toNumber h a) (toNumber h b))"

text \<open>The order of strings, by character codes.\<close>

fun strLess :: "string \<Rightarrow> string \<Rightarrow> bool" where
  "strLess [] [] = False"
| "strLess [] (y # ys) = True"
| "strLess (x # xs) [] = False"
| "strLess (x # xs) (y # ys) =
     ((of_char x :: nat) < of_char y \<or> (x = y \<and> strLess xs ys))"

text \<open>\<open>a < b\<close>: two strings are compared as strings, anything else as numbers.\<close>

definition jsLess :: "host \<Rightarrow> jsval \<Rightarrow> jsval \<Rightarrow> bool" where
  "jsLess h a b =
     (if stringish a \<and> stringish b
      then strLess (toStr h a) (toStr h b)
      else numLess (toNumber h a) (toNumber h b))"

text \<open>\<open>a <= b\<close> is \<open>!(b < a)\<close> unless a comparison with \<open>NaN\<close> is involved.\<close>

definition jsLessEq :: "host \<Rightarrow> jsval \<Rightarrow> jsval \<Rightarrow> bool" where
  "jsLessEq h a b =
     (if stringish a \<and> stringish b then \<not> jsLess h b a
      else numLess (toNumber h a) (toNumber h b) \<or> numEq (toNumber h a) (toNumber h b))"

text \<open>\<open>a == b\<close>, the loose equality.\<close>

fun jsEq :: "host \<Rightarrow> jsval \<Rightarrow> jsval \<Rightarrow> bool" where
  "jsEq h (Num x) (Num y) = numEq x y"
| "jsEq h (Str s) (Str t) = (s = t)"
| "jsEq h (Bool a) (Bool b) = (a = b)"
| "jsEq h Undefined b = (b = Undefined \<or> b = Null)"
| "jsEq h Null b = (b = Undefined \<or> b = Null)"
| "jsEq h a Undefined = False"
| "jsEq h a Null = False"
| "jsEq h (Obj d) (Obj e) = objEq h d e"
| "jsEq h (Conn c p) (Conn d q) = objEq h ''[object Object]'' ''[object Object]''"
| "jsEq h (Obj d) (Conn c p) = False"
| "jsEq h (Conn c p) (Obj d) = False"
| "jsEq h (Str s) b = (if stringish b then s = toStr h b else numEq (strToNum h s) (toNumber h b))"
| "jsEq h a (Str t) = (if stringish a then toStr h a = t else numEq (toNumber h a) (strToNum h t))"
| "jsEq h a b = numEq (toNumber h a) (toNumber h b)"

text \<open>
  A host for running the model on concrete inputs: a timer fires exactly after the delay
  asked for, and the library functions the inputs do not reach have fixed answers.
\<close>

definition testHost :: host where
  "testHost = \<lparr> strToNum = (\<lambda>s. NaN), numStr = (\<lambda>r. ''?''), mathPow = (\<lambda>a b. NaN),
     mathSqrt = (\<lambda>a. NaN),
     mathRandom = (\<lambda>k. 0), hostEval = (\<lambda>s. Inl ''SyntaxError''),
     hostReplace = (\<lambda>name r s. Inr s), objEq = (\<lambda>a b. a = b),
     timeout = (\<lambda>d. case d of Fin r \<Rightarrow> max r 0 | PInf \<Rightarrow> 0 | NInf \<Rightarrow> 0 | NaN \<Rightarrow> 0),
     jsonStringify = (\<lambda>v. ''{}''), jsonParse = (\<lambda>s. Inl ''Unexpected end of JSON input'') \<rparr>"

section \<open>Strings and regular expressions\<close>

definition isSpace :: "char \<Rightarrow> bool" where
  "isSpace c = (c \<in> set [CHR '' '', CHR 0x09, CHR 0x0A, CHR 0x0B, CHR 0x0C, CHR 0x0D, CHR 0xA0])"

definition isDigit :: "char \<Rightarrow> bool" where
  "isDigit c = (c \<in> set ''0123456789'')"

definition isHex :: "char \<Rightarrow> bool" where
  "isHex c = (c \<in> set ''0123456789abcdefABCDEF'')"

definition isWord :: "char \<Rightarrow> bool" where
  "isWord c = (c \<in> set ''abcdefghijklmnopqrstuvwxyzABCDEFGHIJKLMNOPQRSTUVWXYZ0123456789_'')"

text \<open>The characters \<open>.\<close> matches: all but the line terminators.\<close>

definition isDot :: "char \<Rightarrow> bool" where
  "isDot c = (c \<noteq> CHR 0x0A \<and> c \<noteq> CHR 0x0D)"

definition isAny :: "char \<Rightarrow> bool" where
  "isAny c = True"

definition trim :: "string \<Rightarrow> string" where
  "trim s = rev (dropWhile isSpace (rev (dropWhile isSpace s)))"

definition startsWith :: "string \<Rightarrow> string \<Rightarrow> bool" where
  "startsWith s p = (take (length p) s = p)"

definition endsWith :: "string \<Rightarrow> string \<Rightarrow> bool" where
  "endsWith s p = (length p \<le> length s \<and> drop (length s - length p) s = p)"

text \<open>\<open>s.indexOf(p)\<close>, with \<open>None\<close> for -1.\<close>

fun indexOf :: "string \<Rightarrow> string \<Rightarrow> nat option" where
  "indexOf [] p = (if p = [] then Some 0 else None)"
| "indexOf (x # xs) p =
     (if take (length p) (x # xs) = p then Some 0 else map_option Suc (indexOf xs p))"

definition includes_str :: "string \<Rightarrow> string \<Rightarrow> bool" where
  "includes_str s p = (indexOf s p \<noteq> None)"

text \<open>\<open>s.slice(1, -1)\<close>.\<close>

definition slice1 :: "string \<Rightarrow> string" where
  "slice1 s = butlast (tl s)"

text \<open>\<open>s.split(sep)\<close> for a separator that is not empty.\<close>

function splitOn :: "string \<Rightarrow> string \<Rightarrow> string list" where
  "splitOn sep s =
     (case (if sep = [] then None else indexOf s sep) of
        None \<Rightarrow> [s]
      | Some i \<Rightarrow> take i s # splitOn sep (drop (i + length sep) s))"
  by pat_completeness auto
termination
proof (relation "measure (\<lambda>(sep, s). length s)")
  show "wf (measure (\<lambda>(sep, s). length s))" by simp
next
  fix sep s :: string and i
  assume a: "(if sep = [] then None else indexOf s sep) = Some i"
  have ne: "sep \<noteq> []" using a by (auto split: if_splits)
  have "indexOf s sep = Some i \<Longrightarrow> i + length sep \<le> length s" for i
  proof (induction s arbitrary: i)
    case Nil
    then show ?case using ne by simp
  next
    case (Cons x xs)
    show ?case
    proof (cases "take (length sep) (x # xs) = sep")
      case True
      have "length (take (length sep) (x # xs)) = length sep"
        by (simp only: True)
      then have "length sep \<le> length (x # xs)"
        by simp
      with True Cons.prems show ?thesis by simp
    next
      case False
      with Cons.prems obtain j where "indexOf xs sep = Some j" "i = Suc j" by auto
      with Cons.IH show ?thesis by simp
    qed
  qed
  with a ne have "i + length sep \<le> length s" by (auto split: if_splits)
  with ne show "((sep, drop (i + length sep) s), (sep, s)) \<in> measure (\<lambda>(sep, s). length s)"
    by (cases sep) auto
qed

declare splitOn.simps [simp del]

text \<open>\<open>s.replace(/p/g, r)\<close> for a literal pattern \<open>p\<close> that is not empty.\<close>

function replaceAll :: "string \<Rightarrow> string \<Rightarrow> string \<Rightarrow> string" where
  "replaceAll p r s =
     (if s = [] \<or> p = [] then s
      else if take (length p) s = p then r @ replaceAll p r (drop (length p) s)
      else hd s # replaceAll p r (tl s))"
  by pat_completeness auto
termination
  by (relation "measure (\<lambda>(p, r, s). length s)") (auto simp: neq_Nil_conv)

declare replaceAll.simps [simp del]

text \<open>The number of times a character occurs: \<open>(s.match(/c/g) || []).length\<close>.\<close>

definition countChar :: "char \<Rightarrow> string \<Rightarrow> int" where
  "countChar c s = int (length (filter (\<lambda>x. x = c) s))"

text \<open>The value of a string of decimal or of hexadecimal digits.\<close>

definition digitVal :: "char \<Rightarrow> nat" where
  "digitVal c =
     (if c \<in> set ''ABCDEF'' then length (takeWhile (\<lambda>d. d \<noteq> c) ''0123456789ABCDEF'')
      else length (takeWhile (\<lambda>d. d \<noteq> c) ''0123456789abcdef''))"

definition digitsVal :: "nat \<Rightarrow> string \<Rightarrow> nat" where
  "digitsVal base s = foldl (\<lambda>a c. base * a + digitVal c) 0 s"

subsection \<open>Regular expressions\<close>

text \<open>
  The regular expressions of the source, and a backtracking matcher for them that tries
  the alternatives in the order JavaScript does: the left branch of \<open>|\<close> first, one more
  repetition first for a greedy quantifier (\<open>Rep True\<close>) and one fewer first for a lazy one
  (\<open>Rep False\<close>). \<open>Grp n\<close> is the \<open>n\<close>-th capturing group, \<open>Eol\<close> is \<open>$\<close>, \<open>Bnd\<close> is \<open>\\b\<close>.
\<close>

datatype re =
    Lit string
  | Cls "char \<Rightarrow> bool"
  | Seq re re
  | Alt re re
  | Rep bool re
  | Grp nat re
  | Eol
  | Bnd

type_synonym caps = "nat \<Rightarrow> string option"
type_synonym rcont = "char option \<Rightarrow> string \<Rightarrow> caps \<Rightarrow> caps option"
type_synonym rmatcher = "char option \<Rightarrow> string \<Rightarrow> caps \<Rightarrow> rcont \<Rightarrow> caps option"

text \<open>
  A matcher is given the character before the position, the rest of the input, the groups
  captured so far, and the continuation that matches what follows. A repetition that
  consumed nothing is not repeated again.
\<close>

fun rstar :: "bool \<Rightarrow> nat \<Rightarrow> rmatcher \<Rightarrow> rmatcher" where
  "rstar g 0 m p s c k = k p s c"
| "rstar g (Suc n) m p s c k =
     (if g then
        (case m p s c (\<lambda>p' s' c'. if length s' < length s then rstar g n m p' s' c' k else None) of
           Some r \<Rightarrow> Some r
         | None \<Rightarrow> k p s c)
      else
        (case k p s c of
           Some r \<Rightarrow> Some r
         | None \<Rightarrow> m p s c (\<lambda>p' s' c'. if length s' < length s then rstar g n m p' s' c' k else None)))"

definition wordAt :: "char option \<Rightarrow> bool" where
  "wordAt p = (case p of None \<Rightarrow> False | Some c \<Rightarrow> isWord c)"

primrec rmatch :: "re \<Rightarrow> rmatcher" where
  "rmatch (Lit l) p s c k =
     (if take (length l) s = l then k (if l = [] then p else Some (last l)) (drop (length l) s) c
      else None)"
| "rmatch (Cls f) p s c k =
     (case s of [] \<Rightarrow> None | x # xs \<Rightarrow> if f x then k (Some x) xs c else None)"
| "rmatch (Seq a b) p s c k = rmatch a p s c (\<lambda>p' s' c'. rmatch b p' s' c' k)"
| "rmatch (Alt a b) p s c k =
     (case rmatch a p s c k of Some r \<Rightarrow> Some r | None \<Rightarrow> rmatch b p s c k)"
| "rmatch (Rep g r) p s c k = rstar g (length s) (rmatch r) p s c k"
| "rmatch (Grp n r) p s c k =
     rmatch r p s c (\<lambda>p' s' c'. k p' s' (c'(n \<mapsto> take (length s - length s') s)))"
| "rmatch Eol p s c k = (if s = [] then k p s c else None)"
| "rmatch Bnd p s c k =
     (if wordAt p \<noteq> wordAt (case s of [] \<Rightarrow> None | x # xs \<Rightarrow> Some x) then k p s c else None)"

text \<open>
  \<open>s.match(/^r/)\<close>: the groups of the match that starts at the beginning of \<open>s\<close>, group 0
  being the whole match.
\<close>

definition reMatch :: "re \<Rightarrow> string \<Rightarrow> caps option" where
  "reMatch r s = rmatch (Grp 0 r) None s (\<lambda>i. None) (\<lambda>p s' c. Some c)"

definition matches :: "re \<Rightarrow> string \<Rightarrow> bool" where
  "matches r s = (reMatch r s \<noteq> None)"

text \<open>Whether group \<open>i\<close> took part in the match, and what it captured.\<close>

definition hasGrp :: "re \<Rightarrow> string \<Rightarrow> nat \<Rightarrow> bool" where
  "hasGrp r s i = (case reMatch r s of None \<Rightarrow> False | Some c \<Rightarrow> c i \<noteq> None)"

definition grp :: "re \<Rightarrow> string \<Rightarrow> nat \<Rightarrow> string" where
  "grp r s i =
     (case reMatch r s of
        None \<Rightarrow> []
      | Some c \<Rightarrow> (case c i of None \<Rightarrow> [] | Some t \<Rightarrow> t))"

definition seqs :: "re list \<Rightarrow> re" where
  "seqs rs = foldr Seq rs (Lit [])"

definition alts :: "string list \<Rightarrow> re" where
  "alts ls = foldr (\<lambda>l r. Alt (Lit l) r) (butlast ls) (Lit (last ls))"

text \<open>\<open>r*\<close>, \<open>r+\<close>, \<open>r?\<close> and their lazy forms \<open>r*?\<close>, \<open>r+?\<close>.\<close>

definition star :: "re \<Rightarrow> re" where
  "star r = Rep True r"

definition plus :: "re \<Rightarrow> re" where
  "plus r = Seq r (Rep True r)"

definition opt :: "re \<Rightarrow> re" where
  "opt r = Alt r (Lit [])"

definition lazyStar :: "re \<Rightarrow> re" where
  "lazyStar r = Rep False r"

definition lazyPlus :: "re \<Rightarrow> re" where
  "lazyPlus r = Seq r (Rep False r)"

text \<open>\<open>\\s*\<close> and \<open>\\s+\<close>.\<close>

definition ws :: re where
  "ws = star (Cls isSpace)"

definition ws1 :: re where
  "ws1 = plus (Cls isSpace)"

text \<open>
  \<open>name\\s*\\(\\s*(.+?)\\s*,\\s*(.+?)\\s* ... \\)\<close>: a call of \<open>name\<close> with \<open>n\<close> arguments,
  each a lazy group. This is the shape of most patterns of the interpreter.
\<close>

fun lazyArgs :: "nat \<Rightarrow> nat \<Rightarrow> re list" where
  "lazyArgs i 0 = []"
| "lazyArgs i (Suc 0) = [Grp i (lazyPlus (Cls isDot)), ws]"
| "lazyArgs i (Suc n) = [Grp i (lazyPlus (Cls isDot)), ws, Lit '','', ws] @ lazyArgs (Suc i) n"

definition callRe :: "string \<Rightarrow> nat \<Rightarrow> re" where
  "callRe name n = Seq (Lit name) (seqs ([ws, Lit ''('', ws] @ lazyArgs 1 n @ [Lit '')'']))"

section \<open>PinManager\<close>

text \<open>
  A pin object. A property the object does not have is \<open>None\<close>: the power pins are
  created without \<open>analogValue\<close>, \<open>pwmValue\<close>, \<open>isADC\<close> and \<open>isDAC\<close>.
  The source's property \<open>value\<close> is the field \<open>val\<close>.
\<close>

record pin =
  number :: "jsval option"
  mode :: "jsval option"
  val :: "jsval option"
  analogValue :: "jsval option"
  pwmValue :: "jsval option"
  isADC :: "jsval option"
  isDAC :: "jsval option"
  connected :: "jsval option"

definition noProps :: pin where
  "noProps = \<lparr> number = None, mode = None, val = None, analogValue = None,
     pwmValue = None, isADC = None, isDAC = None, connected = None \<rparr>"

text \<open>
  \<open>this.pins\<close> is a plain object, so \<open>this.pins[k]\<close> finds the object's own keys and,
  failing that, the properties every object inherits from \<open>Object.prototype\<close>
  (\<open>protoKeys\<close>): these are functions, and \<open>__proto__\<close> is \<open>Object.prototype\<close> itself.
  \<open>pins\<close> holds the own keys in the order of \<open>Object.keys\<close>; \<open>protoObjs\<close> holds the
  properties the simulator has written onto the inherited functions; \<open>notified\<close> is the
  calls every listener has received, oldest first.
\<close>

datatype slot = Own string | Inherited string

record pinManager =
  pins :: "(string \<times> pin) list"
  protoObjs :: "(string \<times> pin) list"
  notified :: "(jsval \<times> pin) list"

definition protoKeys :: "string list" where
  "protoKeys = [''__proto__'', ''constructor'', ''hasOwnProperty'', ''isPrototypeOf'',
     ''propertyIsEnumerable'', ''toLocaleString'', ''toString'', ''valueOf'',
     ''__defineGetter__'', ''__defineSetter__'', ''__lookupGetter__'', ''__lookupSetter__'']"

definition gpios :: "nat list" where
  "gpios = [0, 1, 2, 3, 4, 5, 12, 13, 14, 15, 16, 17, 18, 19, 21, 22, 23, 25, 26, 27,
     32, 33, 34, 35, 36, 39]"

definition adcPins :: "nat list" where
  "adcPins = [32, 33, 34, 35, 36, 39, 25, 26, 27, 14, 12, 13, 4, 0, 2, 15]"

definition dacPins :: "nat list" where
  "dacPins = [25, 26]"

definition gpioPin :: "nat \<Rightarrow> pin" where
  "gpioPin n = \<lparr> number = Some (Num (Fin (of_nat n))), mode = Some (Str ''INPUT''),
     val = Some (Num (Fin 0)), analogValue = Some (Num (Fin 0)),
     pwmValue = Some (Num (Fin 0)), isADC = Some (Bool (n \<in> set adcPins)),
     isDAC = Some (Bool (n \<in> set dacPins)), connected = Some Null \<rparr>"

definition powerPin :: "string \<Rightarrow> real \<Rightarrow> pin" where
  "powerPin name v = noProps \<lparr> number := Some (Str name), mode := Some (Str ''POWER''),
     val := Some (Num (Fin v)), connected := Some Null \<rparr>"

definition powerKeys :: "string list" where
  "powerKeys = [''3V3'', ''GND'', ''VIN'']"

text \<open>
  \<open>initPins\<close> assigns a fresh object to every key. The keys of the GPIO pins are
  integer keys, which \<open>Object.keys\<close> lists first and in ascending order.
\<close>

definition initPins :: "(string \<times> pin) list" where
  "initPins = map (\<lambda>n. (natStr n, gpioPin n)) gpios @
     [(''3V3'', powerPin ''3V3'' 1), (''GND'', powerPin ''GND'' 0), (''VIN'', powerPin ''VIN'' 1)]"

definition newPinManager :: pinManager where
  "newPinManager = \<lparr> pins = initPins, protoObjs = [], notified = [] \<rparr>"

text \<open>The object \<open>this.pins[k]\<close>, if there is one.\<close>

definition lookupPin :: "pinManager \<Rightarrow> string \<Rightarrow> slot option" where
  "lookupPin pm k =
     (if map_of (pins pm) k \<noteq> None then Some (Own k)
      else if k \<in> set protoKeys then Some (Inherited k)
      else None)"

text \<open>The properties the object in a slot has.\<close>

definition props :: "pinManager \<Rightarrow> slot \<Rightarrow> pin" where
  "props pm s =
     (case s of
        Own k \<Rightarrow> (case map_of (pins pm) k of Some p \<Rightarrow> p | None \<Rightarrow> noProps)
      | Inherited k \<Rightarrow> (case map_of (protoObjs pm) k of Some p \<Rightarrow> p | None \<Rightarrow> noProps))"

text \<open>Reading a property: \<open>undefined\<close> if the object has none of that name.\<close>

definition getProp :: "pinManager \<Rightarrow> slot \<Rightarrow> (pin \<Rightarrow> jsval option) \<Rightarrow> jsval" where
  "getProp pm s f = (case f (props pm s) of Some v \<Rightarrow> v | None \<Rightarrow> Undefined)"

fun updAL :: "string \<Rightarrow> (pin \<Rightarrow> pin) \<Rightarrow> (string \<times> pin) list \<Rightarrow> (string \<times> pin) list" where
  "updAL k f [] = []"
| "updAL k f ((j, p) # ps) = (if j = k then (j, f p) # ps else (j, p) # updAL k f ps)"

text \<open>Writing properties of the object in a slot.\<close>

definition setProps :: "pinManager \<Rightarrow> slot \<Rightarrow> (pin \<Rightarrow> pin) \<Rightarrow> pinManager" where
  "setProps pm s f =
     (case s of
        Own k \<Rightarrow> pm \<lparr> pins := updAL k f (pins pm) \<rparr>
      | Inherited k \<Rightarrow>
          (if map_of (protoObjs pm) k = None
           then pm \<lparr> protoObjs := protoObjs pm @ [(k, f noProps)] \<rparr>
           else pm \<lparr> protoObjs := updAL k f (protoObjs pm) \<rparr>))"

text \<open>\<open>notify(pin)\<close>: every listener is called with the pin and its object.\<close>

definition notify :: "pinManager \<Rightarrow> jsval \<Rightarrow> slot \<Rightarrow> pinManager" where
  "notify pm p s = pm \<lparr> notified := notified pm @ [(p, props pm s)] \<rparr>"

text \<open>
  The guard \<open>if (this.pins[pin]) { ... }\<close> of every method that writes: the body runs on
  the object found, and nothing happens when there is none. A write through the key
  \<open>__proto__\<close> would add a property to \<open>Object.prototype\<close>, which every object of the
  program inherits from then on; the model does not follow that, and such a call has
  the result \<open>None\<close>.
\<close>

definition withPin :: "pinManager \<Rightarrow> string \<Rightarrow> (slot \<Rightarrow> pinManager) \<Rightarrow> pinManager option" where
  "withPin pm k f =
     (case lookupPin pm k of
        None \<Rightarrow> Some pm
      | Some s \<Rightarrow> if s = Inherited ''__proto__'' then None else Some (f s))"

definition pinMode :: "host \<Rightarrow> pinManager \<Rightarrow> jsval \<Rightarrow> jsval \<Rightarrow> pinManager option" where
  "pinMode h pm p m =
     withPin pm (toStr h p) (\<lambda>s. notify (setProps pm s (\<lambda>q. q \<lparr> mode := Some m \<rparr>)) p s)"

definition digitalWrite :: "host \<Rightarrow> pinManager \<Rightarrow> jsval \<Rightarrow> jsval \<Rightarrow> pinManager option" where
  "digitalWrite h pm p v =
     withPin pm (toStr h p) (\<lambda>s.
       notify (setProps pm s (\<lambda>q. q \<lparr> val := Some (Num (Fin (if truthy v then 1 else 0))) \<rparr>)) p s)"

definition digitalRead :: "host \<Rightarrow> pinManager \<Rightarrow> jsval \<Rightarrow> jsval" where
  "digitalRead h pm p =
     (case lookupPin pm (toStr h p) of
        Some s \<Rightarrow> getProp pm s val
      | None \<Rightarrow> Num (Fin 0))"

definition analogRead :: "host \<Rightarrow> pinManager \<Rightarrow> jsval \<Rightarrow> jsval" where
  "analogRead h pm p =
     (case lookupPin pm (toStr h p) of
        Some s \<Rightarrow> (if truthy (getProp pm s analogValue) then getProp pm s analogValue else Num (Fin 0))
      | None \<Rightarrow> Num (Fin 0))"

definition analogWrite :: "host \<Rightarrow> pinManager \<Rightarrow> jsval \<Rightarrow> jsval \<Rightarrow> pinManager option" where
  "analogWrite h pm p v =
     withPin pm (toStr h p) (\<lambda>s.
       notify (setProps pm s (\<lambda>q. q \<lparr>
           pwmValue := Some (Num (mathMax (Fin 0) (mathMin (Fin 255) (toNumber h v)))),
           val := Some (Num (Fin (if numLess (Fin 0) (toNumber h v) then 1 else 0))) \<rparr>)) p s)"

definition setAnalogValue :: "host \<Rightarrow> pinManager \<Rightarrow> jsval \<Rightarrow> jsval \<Rightarrow> pinManager option" where
  "setAnalogValue h pm p v =
     withPin pm (toStr h p) (\<lambda>s.
       setProps pm s (\<lambda>q. q \<lparr>
           analogValue := Some (Num (mathMax (Fin 0) (mathMin (Fin 4095) (toNumber h v)))) \<rparr>))"

definition connectPin :: "host \<Rightarrow> pinManager \<Rightarrow> jsval \<Rightarrow> jsval \<Rightarrow> jsval \<Rightarrow> pinManager option" where
  "connectPin h pm p componentId pinName =
     withPin pm (toStr h p) (\<lambda>s.
       setProps pm s (\<lambda>q. q \<lparr> connected := Some (Conn componentId pinName) \<rparr>))"

definition disconnectPin :: "host \<Rightarrow> pinManager \<Rightarrow> jsval \<Rightarrow> pinManager option" where
  "disconnectPin h pm p =
     withPin pm (toStr h p) (\<lambda>s. setProps pm s (\<lambda>q. q \<lparr> connected := Some Null \<rparr>))"

text \<open>
  \<open>reset()\<close>: \<open>initPins\<close> again, then one notification for every key of the table
  (\<open>Object.keys\<close> yields the keys as strings).
\<close>

definition resetPins :: "pinManager \<Rightarrow> pinManager" where
  "resetPins pm =
     fold (\<lambda>k m. notify m (Str k) (Own k)) (map fst initPins) (pm \<lparr> pins := initPins \<rparr>)"

text \<open>A sequence of calls of the methods that write.\<close>

datatype pinOp =
    PinMode jsval jsval
  | DigitalWrite jsval jsval
  | AnalogWrite jsval jsval
  | SetAnalogValue jsval jsval
  | ConnectPin jsval jsval jsval
  | DisconnectPin jsval

fun applyOp :: "host \<Rightarrow> pinManager \<Rightarrow> pinOp \<Rightarrow> pinManager option" where
  "applyOp h pm (PinMode p m) = pinMode h pm p m"
| "applyOp h pm (DigitalWrite p v) = digitalWrite h pm p v"
| "applyOp h pm (AnalogWrite p v) = analogWrite h pm p v"
| "applyOp h pm (SetAnalogValue p v) = setAnalogValue h pm p v"
| "applyOp h pm (ConnectPin p c n) = connectPin h pm p c n"
| "applyOp h pm (DisconnectPin p) = disconnectPin h pm p"

fun applyOps :: "host \<Rightarrow> pinManager \<Rightarrow> pinOp list \<Rightarrow> pinManager option" where
  "applyOps h pm [] = Some pm"
| "applyOps h pm (x # xs) =
     (case applyOp h pm x of None \<Rightarrow> None | Some pm' \<Rightarrow> applyOps h pm' xs)"

text \<open>The pin a call names.\<close>

fun opPin :: "pinOp \<Rightarrow> jsval" where
  "opPin (PinMode p m) = p"
| "opPin (DigitalWrite p v) = p"
| "opPin (AnalogWrite p v) = p"
| "opPin (SetAnalogValue p v) = p"
| "opPin (ConnectPin p c n) = p"
| "opPin (DisconnectPin p) = p"

text \<open>Whether a call sets the mode or the value of the pin it names.\<close>

fun setsModeOrValue :: "pinOp \<Rightarrow> bool" where
  "setsModeOrValue (PinMode p m) = True"
| "setsModeOrValue (DigitalWrite p v) = True"
| "setsModeOrValue (AnalogWrite p v) = True"
| "setsModeOrValue x = False"

text \<open>The mode and the value of the power-rail pins \<open>3V3\<close>, \<open>GND\<close> and \<open>VIN\<close>.\<close>

definition powerRails :: "pinManager \<Rightarrow> (jsval option \<times> jsval option) option list" where
  "powerRails pm = map (\<lambda>k. map_option (\<lambda>p. (mode p, val p)) (map_of (pins pm) k)) powerKeys"


section \<open>The state of the simulator\<close>

subsection \<open>Variable tables\<close>

text \<open>
  \<open>this.variables\<close>, \<open>localVars\<close> and \<open>this.functions\<close> are plain objects used as
  tables. A table is the list of its own keys with their values, in the order \<open>Object.keys\<close>
  gives: the keys that are array indices first, ascending, the others in the order they
  were first assigned.
\<close>

type_synonym table = "(string \<times> jsval) list"

definition isIndexKey :: "string \<Rightarrow> bool" where
  "isIndexKey k = (k \<noteq> [] \<and> list_all isDigit k \<and> (k = ''0'' \<or> hd k \<noteq> CHR ''0'')
     \<and> digitsVal 10 k < 4294967295)"

fun insertIndex :: "string \<Rightarrow> jsval \<Rightarrow> table \<Rightarrow> table" where
  "insertIndex k v [] = [(k, v)]"
| "insertIndex k v ((j, w) # t) =
     (if isIndexKey j \<and> digitsVal 10 j < digitsVal 10 k then (j, w) # insertIndex k v t
      else (k, v) # (j, w) # t)"

text \<open>Defining the own property \<open>k\<close> of a table.\<close>

definition tset :: "string \<Rightarrow> jsval \<Rightarrow> table \<Rightarrow> table" where
  "tset k v t =
     (if map_of t k \<noteq> None then map (\<lambda>(j, w). if j = k then (j, v) else (j, w)) t
      else if isIndexKey k then insertIndex k v t
      else t @ [(k, v)])"

text \<open>The value a table inherits under a key of \<open>Object.prototype\<close>.\<close>

definition protoValue :: "string \<Rightarrow> jsval" where
  "protoValue k =
     (if k = ''__proto__'' then Obj ''[object Object]''
      else if k = ''constructor'' then Obj ''function Object() { [native code] }''
      else Obj (''function '' @ k @ ''() { [native code] }''))"

text \<open>\<open>k in t\<close> and \<open>t[k]\<close>.\<close>

definition thas :: "table \<Rightarrow> string \<Rightarrow> bool" where
  "thas t k = (map_of t k \<noteq> None \<or> k \<in> set protoKeys)"

definition tget :: "table \<Rightarrow> string \<Rightarrow> jsval" where
  "tget t k =
     (case map_of t k of
        Some v \<Rightarrow> v
      | None \<Rightarrow> if k \<in> set protoKeys then protoValue k else Undefined)"

text \<open>
  The assignment \<open>t[k] = v\<close>. Under the key \<open>__proto__\<close> it calls the setter of
  \<open>Object.prototype\<close>, which ignores a primitive value and replaces the prototype of the
  table by an object or \<open>null\<close>; the model does not follow a table with another
  prototype, and that assignment has the result \<open>None\<close>.
\<close>

fun isPrimitive :: "jsval \<Rightarrow> bool" where
  "isPrimitive (Conn c p) = False"
| "isPrimitive (Obj d) = False"
| "isPrimitive Null = False"
| "isPrimitive v = True"

definition tassign :: "table \<Rightarrow> string \<Rightarrow> jsval \<Rightarrow> table option" where
  "tassign t k v =
     (if k = ''__proto__'' then (if isPrimitive v then Some t else None)
      else Some (tset k v t))"

text \<open>\<open>{ ...a, ...b }\<close>.\<close>

definition spread :: "table \<Rightarrow> table \<Rightarrow> table" where
  "spread a b = fold (\<lambda>(k, v) t. tset k v t) b a"

subsection \<open>The engine, the parser and their environment\<close>

text \<open>A user-defined function: its parameter names and the statements of its body.\<close>

record func =
  params :: "string list"
  body :: "string list"

text \<open>
  What the page does to the engine while a run is suspended: the Stop and Reset buttons
  and the speed slider.
\<close>

datatype hostCall = Stop | Reset | SetSpeed jsnum

text \<open>
  One record for the \<open>Engine\<close>, its \<open>ArduinoParser\<close> and its \<open>PinManager\<close>.
  \<open>funcs\<close> is the parser's \<open>functions\<close>;
  \<open>prunning\<close>, \<open>pstartTime\<close> and \<open>pspeed\<close> are the parser's \<open>running\<close>,
  \<open>startTime\<close> and \<open>speed\<close>; the fields without prefix are the engine's.
  \<open>serialOut\<close> and \<open>statusOut\<close> are the calls every serial listener and every status
  listener has received, oldest first. \<open>frames\<close> is the store of the \<open>localVars\<close>
  objects: a statement is executed against the address of one of them, and a call
  allocates a new one. \<open>rng\<close> counts the calls of \<open>Math.random()\<close>.
  \<open>now\<close> is the time in milliseconds and \<open>pending\<close> the calls the page will make, each
  with its time, in the order of their times. The engine has no peripheral registered.
\<close>

record sim =
  pinManager :: pinManager
  variables :: table
  funcs :: "(string \<times> func) list"
  setupCode :: "string list"
  loopCode :: "string list"
  prunning :: bool
  pstartTime :: real
  pspeed :: jsnum
  running :: bool
  startTime :: real
  speed :: jsnum
  serialBuffer :: string
  serialOut :: "(string \<times> string \<times> string) list"
  statusOut :: "string list"
  frames :: "table list"
  rng :: nat
  now :: real
  pending :: "(real \<times> hostCall) list"


text \<open>\<open>Date.now()\<close>: the time in whole milliseconds.\<close>

definition dateNow :: "sim \<Rightarrow> real" where
  "dateNow st = of_int \<lfloor>now st\<rfloor>"

text \<open>The \<open>localVars\<close> object at an address, and a new one.\<close>

definition frame :: "sim \<Rightarrow> nat \<Rightarrow> table" where
  "frame st a = (if a < length (frames st) then frames st ! a else [])"

definition setFrame :: "sim \<Rightarrow> nat \<Rightarrow> table \<Rightarrow> sim" where
  "setFrame st a t = st \<lparr> frames := (frames st)[a := t] \<rparr>"

definition newFrame :: "sim \<Rightarrow> table \<Rightarrow> nat \<times> sim" where
  "newFrame st t = (length (frames st), st \<lparr> frames := frames st @ [t] \<rparr>)"

subsection \<open>Serial output and status\<close>

text \<open>\<open>x.toFixed(d)\<close> for \<open>d\<close> up to 100.\<close>

definition toFixed :: "host \<Rightarrow> nat \<Rightarrow> jsnum \<Rightarrow> string" where
  "toFixed h d x =
     (case x of
        NaN \<Rightarrow> ''NaN''
      | PInf \<Rightarrow> ''Infinity''
      | NInf \<Rightarrow> ''-Infinity''
      | Fin r \<Rightarrow>
          (if 10 ^ 21 \<le> \<bar>r\<bar> then numToString h (Fin r)
           else
             (let ds = natStr (nat \<lfloor>\<bar>r\<bar> * 10 ^ d + 1 / 2\<rfloor>);
                  padded = replicate (Suc d - length ds) (CHR ''0'') @ ds
              in (if r < 0 then ''-'' else [])
                 @ take (length padded - d) padded
                 @ (if d = 0 then [] else CHR ''.'' # drop (length padded - d) padded))))"

text \<open>
  \<open>Engine.handleSerial(text, type)\<close>. The elapsed time is
  \<open>((Date.now() - this.startTime) / 1000).toFixed(3)\<close>.
\<close>

definition handleSerial :: "host \<Rightarrow> sim \<Rightarrow> string \<Rightarrow> string \<Rightarrow> sim" where
  "handleSerial h st text typ =
     (if typ = ''print'' then st \<lparr> serialBuffer := serialBuffer st @ text \<rparr>
      else st \<lparr> serialBuffer := [],
                serialOut := serialOut st @
                  [(serialBuffer st @ text, typ,
                    toFixed h 3 (Fin ((dateNow st - startTime st) / 1000)))] \<rparr>)"

definition notifyStatus :: "sim \<Rightarrow> string \<Rightarrow> sim" where
  "notifyStatus st s = st \<lparr> statusOut := statusOut st @ [s] \<rparr>"

text \<open>\<open>Engine.getElapsedTime()\<close>.\<close>

definition getElapsedTime :: "sim \<Rightarrow> jsnum" where
  "getElapsedTime st =
     (if startTime st = 0 then Fin 0
      else numDiv (numMul (Fin (dateNow st - startTime st)) (speed st)) (Fin 1000))"

subsection \<open>Stop, reset, speed, and suspension\<close>

definition stop :: "sim \<Rightarrow> sim" where
  "stop st = notifyStatus (st \<lparr> running := False, prunning := False \<rparr>) ''stopped''"

definition reset :: "sim \<Rightarrow> sim" where
  "reset st =
     notifyStatus ((stop st) \<lparr> pinManager := resetPins (pinManager st), variables := [], serialBuffer := [] \<rparr>)
       ''idle''"

definition setSpeed :: "sim \<Rightarrow> jsnum \<Rightarrow> sim" where
  "setSpeed st s = st \<lparr> speed := s, pspeed := s \<rparr>"

fun applyHost :: "hostCall \<Rightarrow> sim \<Rightarrow> sim" where
  "applyHost Stop st = stop st"
| "applyHost Reset st = reset st"
| "applyHost (SetSpeed s) st = setSpeed st s"

text \<open>
  JavaScript runs one task at a time: the page's calls reach the engine only while the
  run is suspended in a timer. \<open>suspend h st d\<close> is \<open>await new Promise(r => setTimeout(r, d))\<close>:
  the timer fires \<open>timeout h d\<close> milliseconds later, the calls due before that are made
  in order, and the run resumes. Neither the timer nor the promise looks at the
  \<open>running\<close> flag. Computation itself takes no time in the model.
\<close>

fun hostCalls :: "real \<Rightarrow> (real \<times> hostCall) list \<Rightarrow> sim \<Rightarrow> sim" where
  "hostCalls wake [] st = st \<lparr> pending := [] \<rparr>"
| "hostCalls wake ((t, c) # cs) st =
     (if t \<le> wake then hostCalls wake cs (applyHost c (st \<lparr> now := max (now st) t \<rparr>))
      else st \<lparr> pending := (t, c) # cs \<rparr>)"

definition suspend :: "host \<Rightarrow> sim \<Rightarrow> jsnum \<Rightarrow> sim" where
  "suspend h st d =
     (hostCalls (now st + timeout h d) (pending st) st) \<lparr> now := now st + timeout h d \<rparr>"

text \<open>\<open>ArduinoParser.sleep(ms)\<close>.\<close>

definition sleep :: "host \<Rightarrow> sim \<Rightarrow> jsnum \<Rightarrow> sim" where
  "sleep h st ms = suspend h st (mathMax (Fin 1) ms)"

section \<open>Evaluating expressions and conditions\<close>

subsection \<open>What a match captures is shorter than the input\<close>

text \<open>
  \<open>evaluateExpr\<close> calls itself on the groups of a match. Every group is a part of the
  input the match has consumed, and the patterns concerned start with a name, which no
  group contains; so the recursion is on shorter and shorter strings.
\<close>

definition fits :: "caps \<Rightarrow> caps \<Rightarrow> nat \<Rightarrow> bool" where
  "fits c c' n = (\<forall>i t. c' i = Some t \<longrightarrow> c i = Some t \<or> length t \<le> n)"

definition consumes :: "rcont \<Rightarrow> caps \<Rightarrow> string \<Rightarrow> caps \<Rightarrow> bool" where
  "consumes k res s c =
     (\<exists>p' s' c'. k p' s' c' = Some res \<and> length s' \<le> length s \<and> fits c c' (length s - length s'))"

lemma fits_refl: "fits c c n"
  by (simp add: fits_def)

lemma consumesI:
  "k p' s' c' = Some res \<Longrightarrow> length s' \<le> length s \<Longrightarrow> fits c c' (length s - length s') \<Longrightarrow>
   consumes k res s c"
  unfolding consumes_def by blast

lemma consumesE:
  assumes "consumes k res s c"
  obtains p' s' c' where "k p' s' c' = Some res" and "length s' \<le> length s"
    and "fits c c' (length s - length s')"
  using assms unfolding consumes_def by blast

lemma fits_trans:
  assumes "fits c c1 (a - b)" and "fits c1 c2 (b - d)" and "b \<le> a" and "d \<le> b"
  shows "fits c c2 (a - d)"
  unfolding fits_def
proof (intro allI impI)
  fix i t
  assume "c2 i = Some t"
  with assms(2) have "c1 i = Some t \<or> length t \<le> b - d" by (simp add: fits_def)
  then show "c i = Some t \<or> length t \<le> a - d"
  proof
    assume "c1 i = Some t"
    with assms(1) have "c i = Some t \<or> length t \<le> a - b" by (simp add: fits_def)
    with assms(4) show ?thesis by auto
  next
    assume "length t \<le> b - d"
    with assms(3) show ?thesis by auto
  qed
qed

lemma consumes_trans:
  assumes "consumes k1 res s c"
    and "\<And>p1 s1 c1. k1 p1 s1 c1 = Some res \<Longrightarrow> consumes k res s1 c1"
  shows "consumes k res s c"
proof -
  from assms(1) obtain p1 s1 c1 where
    a: "k1 p1 s1 c1 = Some res" "length s1 \<le> length s" "fits c c1 (length s - length s1)"
    unfolding consumes_def by blast
  from assms(2) [OF a(1)] obtain p2 s2 c2 where
    b: "k p2 s2 c2 = Some res" "length s2 \<le> length s1" "fits c1 c2 (length s1 - length s2)"
    unfolding consumes_def by blast
  have "fits c c2 (length s - length s2)"
    using fits_trans [OF a(3) b(3) a(2) b(2)] .
  moreover have "length s2 \<le> length s" using a(2) b(2) by simp
  ultimately show ?thesis using b(1) by (rule_tac consumesI)
qed

lemma rstar_consumes:
  assumes m: "\<And>p s c k res. m p s c k = Some res \<Longrightarrow> consumes k res s c"
  shows "rstar g n m p s c k = Some res \<Longrightarrow> consumes k res s c"
proof (induction n arbitrary: p s c res)
  case 0
  then have "k p s c = Some res" by simp
  then show ?case by (rule consumesI) (simp_all add: fits_refl)
next
  case (Suc n)
  let ?k = "\<lambda>p' s' c'. if length s' < length s then rstar g n m p' s' c' k else None"
  from Suc.prems have "m p s c ?k = Some res \<or> k p s c = Some res"
    by (auto split: if_splits option.splits)
  then show ?case
  proof
    assume "k p s c = Some res"
    then show ?thesis by (rule consumesI) (simp_all add: fits_refl)
  next
    assume "m p s c ?k = Some res"
    from m [OF this] have "consumes ?k res s c" .
    then show ?thesis
    proof (rule consumes_trans)
      fix p1 s1 c1
      assume "?k p1 s1 c1 = Some res"
      then have "rstar g n m p1 s1 c1 k = Some res" by (auto split: if_splits)
      then show "consumes k res s1 c1" by (rule Suc.IH)
    qed
  qed
qed

lemma rmatch_consumes:
  "rmatch r p s c k = Some res \<Longrightarrow> consumes k res s c"
proof (induction r arbitrary: p s c k res)
  case (Lit l)
  then have "k (if l = [] then p else Some (last l)) (drop (length l) s) c = Some res"
    by (auto split: if_splits)
  then show ?case by (rule consumesI) (simp_all add: fits_refl)
next
  case (Cls f)
  then obtain x xs where "s = x # xs" "k (Some x) xs c = Some res"
    by (auto split: if_splits list.splits)
  then show ?case by (auto intro!: consumesI [of k "Some x" xs c] fits_refl)
next
  case (Seq a b)
  from Seq.prems have "rmatch a p s c (\<lambda>p' s' c'. rmatch b p' s' c' k) = Some res" by simp
  from Seq.IH(1) [OF this] show ?case
    by (rule consumes_trans) (rule Seq.IH(2))
next
  case (Alt a b)
  then show ?case by (auto split: option.splits)
next
  case (Rep g r)
  from Rep.prems have "rstar g (length s) (rmatch r) p s c k = Some res" by simp
  from rstar_consumes [of "rmatch r", OF Rep.IH this] show ?case .
next
  case (Grp n r)
  let ?k = "\<lambda>p' s' c'. k p' s' (c'(n \<mapsto> take (length s - length s') s))"
  from Grp.prems have "rmatch r p s c ?k = Some res" by simp
  from Grp.IH [OF this] obtain p1 s1 c1 where
    a: "?k p1 s1 c1 = Some res" "length s1 \<le> length s" "fits c c1 (length s - length s1)"
    unfolding consumes_def by blast
  have "fits c (c1(n \<mapsto> take (length s - length s1) s)) (length s - length s1)"
    using a(3) by (auto simp: fits_def)
  with a(1,2) show ?case by (rule_tac consumesI)
next
  case Eol
  then have "k p s c = Some res" by (auto split: if_splits)
  then show ?case by (rule consumesI) (simp_all add: fits_refl)
next
  case Bnd
  then have "k p s c = Some res" by (auto split: if_splits)
  then show ?case by (rule consumesI) (simp_all add: fits_refl)
qed

lemma take_is_prefix: "take (length l) s = l \<Longrightarrow> length l \<le> length s"
proof -
  assume a: "take (length l) s = l"
  have "length (take (length l) s) = length l" by (simp only: a)
  then show ?thesis by simp
qed

lemma grp_bound:
  assumes "rmatch r q s' c0 (\<lambda>p' s'' c'. Some (c'(0 \<mapsto> take (length s - length s'') s))) = Some c"
    and "i \<noteq> 0" and "c i = Some t"
  shows "c0 i = Some t \<or> length t \<le> length s'"
proof (rule consumesE [OF rmatch_consumes [OF assms(1)]])
  fix p1 :: "char option" and s1 :: string and c1 :: caps
  assume a: "Some (c1(0 \<mapsto> take (length s - length s1) s)) = Some c"
    and f: "fits c0 c1 (length s' - length s1)"
  from a assms(2) have "c i = c1 i" by auto
  with assms(3) have "c1 i = Some t" by simp
  with f have "c0 i = Some t \<or> length t \<le> length s' - length s1"
    unfolding fits_def by blast
  then show ?thesis by auto
qed

lemma grp_shorter:
  assumes "matches (Seq (Lit l) r) s" and "l \<noteq> []" and "i \<noteq> 0"
  shows "length (grp (Seq (Lit l) r) s i) < length s"
proof -
  from assms(1) obtain c where c: "reMatch (Seq (Lit l) r) s = Some c"
    by (auto simp: matches_def)
  from c have pre: "take (length l) s = l"
    and m: "rmatch r (Some (last l)) (drop (length l) s) (\<lambda>i. None)
              (\<lambda>p' s'' c'. Some (c'(0 \<mapsto> take (length s - length s'') s))) = Some c"
    using assms(2) by (auto simp: reMatch_def split: if_splits)
  have ls: "length l \<le> length s" using take_is_prefix [OF pre] .
  have pos: "0 < length l" using assms(2) by simp
  have "length t < length s" if "c i = Some t" for t
  proof -
    from grp_bound [OF m assms(3) that] have "length t \<le> length s - length l" by simp
    with ls pos show ?thesis by linarith
  qed
  moreover have "0 < length s" using ls pos by linarith
  ultimately show ?thesis
    using c by (auto simp: grp_def split: option.splits)
qed

lemma grp_shorter_alt:
  assumes "matches (Seq (Grp j (Alt (Lit a) (Lit b))) r) s" and "a \<noteq> []" and "b \<noteq> []"
    and "i \<noteq> 0" and "i \<noteq> j"
  shows "length (grp (Seq (Grp j (Alt (Lit a) (Lit b))) r) s i) < length s"
proof -
  let ?R = "Seq (Grp j (Alt (Lit a) (Lit b))) r"
  from assms(1) obtain c where c: "reMatch ?R s = Some c"
    by (auto simp: matches_def)
  from c obtain l where l: "l = a \<or> l = b" "take (length l) s = l"
    and m: "rmatch r (Some (last l)) (drop (length l) s)
              ((\<lambda>i. None)(j \<mapsto> take (length s - length (drop (length l) s)) s))
              (\<lambda>p' s'' c'. Some (c'(0 \<mapsto> take (length s - length s'') s))) = Some c"
    using assms(2,3) by (auto simp: reMatch_def split: if_splits option.splits)
  have ne: "l \<noteq> []" using l(1) assms(2,3) by auto
  have ls: "length l \<le> length s" using take_is_prefix [OF l(2)] .
  have pos: "0 < length l" using ne by simp
  have "length t < length s" if "c i = Some t" for t
  proof -
    from grp_bound [OF m assms(4) that] assms(5)
    have "length t \<le> length s - length l" by simp
    with ls pos show ?thesis by linarith
  qed
  moreover have "0 < length s" using ls pos by linarith
  ultimately show ?thesis
    using c by (auto simp: grp_def split: option.splits)
qed

lemma indexOf_bound: "indexOf s p = Some i \<Longrightarrow> i + length p \<le> length s"
proof (induction s arbitrary: i)
  case Nil
  then show ?case by (auto split: if_splits)
next
  case (Cons x xs)
  show ?case
  proof (cases "take (length p) (x # xs) = p")
    case True
    with Cons.prems take_is_prefix [OF True] show ?thesis by simp
  next
    case False
    with Cons.prems obtain j where "indexOf xs p = Some j" "i = Suc j" by auto
    with Cons.IH show ?thesis by simp
  qed
qed

lemma splitOn_le: "y \<in> set (splitOn sep t) \<Longrightarrow> length y \<le> length t"
proof (induction sep t rule: splitOn.induct)
  case (1 sep t)
  show ?case
  proof (cases "if sep = [] then None else indexOf t sep")
    case None
    with "1.prems" show ?thesis by (simp add: splitOn.simps [of sep t])
  next
    case (Some i)
    with "1.prems" have "y = take i t \<or> y \<in> set (splitOn sep (drop (i + length sep) t))"
      by (simp add: splitOn.simps [of sep t])
    then show ?thesis
    proof
      assume "y = take i t"
      then show ?thesis by simp
    next
      assume "y \<in> set (splitOn sep (drop (i + length sep) t))"
      from "1.IH" [OF Some this] show ?thesis by simp
    qed
  qed
qed

lemma splitOn_shorter:
  assumes inc: "includes_str s sep" and ne: "sep \<noteq> []" and x: "x \<in> set (splitOn sep s)"
  shows "length x < length s"
proof -
  from inc obtain i where i: "indexOf s sep = Some i" by (auto simp: includes_str_def)
  with ne x have d: "x = take i s \<or> x \<in> set (splitOn sep (drop (i + length sep) s))"
    by (simp add: splitOn.simps [of sep s])
  have b: "i + length sep \<le> length s" using indexOf_bound [OF i] .
  have p: "0 < length sep" using ne by simp
  from d show ?thesis
  proof
    assume "x = take i s"
    then have "length x \<le> i" by simp
    with b p show ?thesis by linarith
  next
    assume "x \<in> set (splitOn sep (drop (i + length sep) s))"
    from splitOn_le [OF this] have "length x \<le> length s - (i + length sep)" by simp
    with b p show ?thesis by linarith
  qed
qed

lemma length_trim: "length (trim s) \<le> length s"
proof -
  have "length (dropWhile isSpace (rev (dropWhile isSpace s))) \<le> length (rev (dropWhile isSpace s))"
    by (rule length_dropWhile_le)
  also have "\<dots> \<le> length s" by (simp add: length_dropWhile_le)
  finally show ?thesis by (simp add: trim_def)
qed

subsection \<open>The patterns of \<open>evaluateExpr\<close>\<close>

text \<open>\<open>/^-?\\d+(\\.\\d+)?$/\<close> and \<open>/^0x[0-9a-fA-F]+$/\<close>.\<close>

definition numRe :: re where
  "numRe = seqs [opt (Lit ''-''), plus (Cls isDigit),
     opt (Grp 1 (Seq (Lit ''.'') (plus (Cls isDigit)))), Eol]"

definition hexRe :: re where
  "hexRe = seqs [Lit ''0x'', plus (Cls isHex), Eol]"

text \<open>\<open>/^random\\s*\\(\\s*(?:(.+?)\\s*,\\s*)?(.+?)\\s*\\)/\<close>.\<close>

definition randomRe :: re where
  "randomRe = Seq (Lit ''random'')
     (seqs [ws, Lit ''('', ws, opt (seqs [Grp 1 (lazyPlus (Cls isDot)), ws, Lit '','', ws]),
        Grp 2 (lazyPlus (Cls isDot)), ws, Lit '')''])"

text \<open>\<open>/^(min|max)\\s*\\(\\s*(.+?)\\s*,\\s*(.+?)\\s*\\)/\<close>.\<close>

definition minMaxRe :: re where
  "minMaxRe = Seq (Grp 1 (Alt (Lit ''min'') (Lit ''max'')))
     (seqs ([ws, Lit ''('', ws] @ lazyArgs 2 2 @ [Lit '')'']))"

text \<open>\<open>/^[\\d\\s\\+\\-\\*\\/\\%\\.\\(\\)]+$/\<close>.\<close>

definition arithRe :: re where
  "arithRe = seqs [plus (Cls (\<lambda>c. isDigit c \<or> isSpace c \<or> c \<in> set ''+-*/%.()'')), Eol]"

text \<open>\<open>/\\bname\\b/\<close> for a name made of word characters.\<close>

definition wordRe :: "string \<Rightarrow> re" where
  "wordRe name = seqs [Bnd, Lit name, Bnd]"

subsection \<open>Literals\<close>

text \<open>\<open>parseFloat\<close> of a string that matches \<open>numRe\<close>, and \<open>parseInt(s, 16)\<close> of one
  that matches \<open>hexRe\<close>.\<close>

definition parseFloat :: "string \<Rightarrow> jsnum" where
  "parseFloat s =
     (let neg = startsWith s ''-'';
          digits = (if neg then tl s else s);
          ip = takeWhile isDigit digits;
          fp = drop (Suc (length ip)) digits;
          v = real (digitsVal 10 ip) + real (digitsVal 10 fp) / 10 ^ length fp
      in Fin (if neg then - v else v))"

definition parseHex :: "string \<Rightarrow> jsnum" where
  "parseHex s = Fin (real (digitsVal 16 (drop 2 s)))"

text \<open>
  The forms \<open>evaluateExpr\<close> tries first, which need no recursion: the constants, the
  numeric and string literals, \<open>millis()\<close> and \<open>micros()\<close>.
\<close>

definition evalLiteral :: "host \<Rightarrow> sim \<Rightarrow> string \<Rightarrow> jsval option" where
  "evalLiteral h st expr =
     (if expr = ''HIGH'' then Some (Num (Fin 1))
      else if expr = ''LOW'' then Some (Num (Fin 0))
      else if expr = ''true'' then Some (Num (Fin 1))
      else if expr = ''false'' then Some (Num (Fin 0))
      else if expr = ''INPUT'' then Some (Str ''INPUT'')
      else if expr = ''OUTPUT'' then Some (Str ''OUTPUT'')
      else if expr = ''INPUT_PULLUP'' then Some (Str ''INPUT_PULLUP'')
      else if matches numRe expr then Some (Num (parseFloat expr))
      else if matches hexRe expr then Some (Num (parseHex expr))
      else if (startsWith expr [dq] \<and> endsWith expr [dq]) \<or>
              (startsWith expr [sq] \<and> endsWith expr [sq])
        then Some (Str (slice1 expr))
      else if expr = ''millis()''
        then Some (Num (mathFloor (numMul (Fin (dateNow st - pstartTime st)) (pspeed st))))
      else if expr = ''micros()''
        then Some (Num (mathFloor
               (numMul (numMul (Fin (dateNow st - pstartTime st)) (pspeed st)) (Fin 1000))))
      else None)"

subsection \<open>The arithmetic fallback\<close>

text \<open>
  \<open>s.replace(/r/g, f)\<close> for a pattern \<open>r\<close> that matches no empty string: the matches are
  searched from left to right, and the search goes on after each match.
\<close>

fun reScan :: "nat \<Rightarrow> re \<Rightarrow> (caps \<Rightarrow> string) \<Rightarrow> char option \<Rightarrow> string \<Rightarrow> string" where
  "reScan 0 r f p s = s"
| "reScan (Suc n) r f p s =
     (case s of
        [] \<Rightarrow> []
      | x # xs \<Rightarrow>
          (case rmatch (Grp 0 r) p s (\<lambda>i. None) (\<lambda>p' s' c. Some c) of
             None \<Rightarrow> x # reScan n r f (Some x) xs
           | Some c \<Rightarrow>
               (case c 0 of
                  None \<Rightarrow> x # reScan n r f (Some x) xs
                | Some [] \<Rightarrow> x # reScan n r f (Some x) xs
                | Some (y # ys) \<Rightarrow>
                    f c @ reScan n r f (Some (last (y # ys))) (drop (length (y # ys)) s))))"

definition reReplace :: "re \<Rightarrow> string \<Rightarrow> string \<Rightarrow> string" where
  "reReplace r repl s = reScan (length s) r (\<lambda>c. repl) None s"

text \<open>
  The loop that substitutes the value of every numeric variable for its name. A name
  that is not made of word characters is a regular expression of its own, which the
  host interprets and may reject.
\<close>

fun substVars :: "host \<Rightarrow> table \<Rightarrow> string list \<Rightarrow> string \<Rightarrow> string + string" where
  "substVars h t [] s = Inr s"
| "substVars h t (name # names) s =
     (case tget t name of
        Num x \<Rightarrow>
          (if name \<noteq> [] \<and> list_all isWord name
           then substVars h t names (reReplace (wordRe name) (numToString h x) s)
           else (case hostReplace h name (numToString h x) s of
                   Inl e \<Rightarrow> Inl e
                 | Inr s' \<Rightarrow> substVars h t names s'))
      | _ \<Rightarrow> substVars h t names s)"

text \<open>\<open>Object.keys(t).sort((a, b) => b.length - a.length)\<close>; the sort is stable.\<close>

definition sortedNames :: "table \<Rightarrow> string list" where
  "sortedNames t = sort_key (\<lambda>k. - int (length k)) (map fst t)"

text \<open>The \<open>try\<close> block at the end of \<open>evaluateExpr\<close>, and the \<open>return 0\<close> after it.\<close>

definition evalFallback :: "host \<Rightarrow> sim \<Rightarrow> table \<Rightarrow> string \<Rightarrow> jsval" where
  "evalFallback h st lv expr =
     (let allVars = spread (variables st) lv in
      case substVars h allVars (sortedNames allVars) expr of
        Inl e \<Rightarrow> Num (Fin 0)
      | Inr s1 \<Rightarrow>
          (let s2 = reReplace (wordRe ''LOW'') ''0'' (reReplace (wordRe ''HIGH'') ''1'' s1);
               s3 = reReplace (wordRe ''false'') ''0'' (reReplace (wordRe ''true'') ''1'' s2)
           in if matches arithRe s3
              then (case hostEval h s3 of Inl e \<Rightarrow> Num (Fin 0) | Inr v \<Rightarrow> v)
              else Num (Fin 0)))"

text \<open>The variable lookup, local table first, and the fallback after it.\<close>

definition evalVariable :: "host \<Rightarrow> sim \<Rightarrow> table \<Rightarrow> string \<Rightarrow> jsval" where
  "evalVariable h st lv expr =
     (if thas lv expr then tget lv expr
      else if thas (variables st) expr then tget (variables st) expr
      else evalFallback h st lv expr)"

subsection \<open>\<open>evaluateExpr\<close>\<close>

text \<open>
  \<open>evaluateExpr(expr, localVars)\<close>. The last argument and the second component of the
  result count the calls of \<open>Math.random()\<close>; nothing else of the state changes.
  The source's loop over \<open>mathFuncs\<close> tries \<open>abs\<close>, then \<open>sqrt\<close>.
\<close>

lemma grp_call_shorter:
  "matches (callRe name k) x \<Longrightarrow> name \<noteq> [] \<Longrightarrow> i \<noteq> 0 \<Longrightarrow>
   length (grp (callRe name k) x i) < length x"
  unfolding callRe_def by (rule grp_shorter)

lemma grp_random_shorter:
  "matches randomRe x \<Longrightarrow> i \<noteq> 0 \<Longrightarrow> length (grp randomRe x i) < length x"
  unfolding randomRe_def by (rule grp_shorter) simp_all

lemma grp_minMax_shorter:
  "matches minMaxRe x \<Longrightarrow> i \<noteq> 0 \<Longrightarrow> i \<noteq> 1 \<Longrightarrow> length (grp minMaxRe x i) < length x"
  unfolding minMaxRe_def by (rule grp_shorter_alt) simp_all

lemma call_decreases:
  "x = trim e0 \<Longrightarrow> matches (callRe name k) x \<Longrightarrow> name \<noteq> [] \<Longrightarrow> i \<noteq> 0 \<Longrightarrow>
   ((h, st, lv, grp (callRe name k) x i, m), (h, st, lv, e0, n))
     \<in> measure (\<lambda>(h, st, lv, e, n). length e)"
  using grp_call_shorter [of name k x i] length_trim [of e0] by simp

lemma random_decreases:
  "x = trim e0 \<Longrightarrow> matches randomRe x \<Longrightarrow> i \<noteq> 0 \<Longrightarrow>
   ((h, st, lv, grp randomRe x i, m), (h, st, lv, e0, n))
     \<in> measure (\<lambda>(h, st, lv, e, n). length e)"
  using grp_random_shorter [of x i] length_trim [of e0] by simp

lemma minMax_decreases:
  "x = trim e0 \<Longrightarrow> matches minMaxRe x \<Longrightarrow> i \<noteq> 0 \<Longrightarrow> i \<noteq> 1 \<Longrightarrow>
   ((h, st, lv, grp minMaxRe x i, m), (h, st, lv, e0, n))
     \<in> measure (\<lambda>(h, st, lv, e, n). length e)"
  using grp_minMax_shorter [of x i] length_trim [of e0] by simp

function evaluateExpr :: "host \<Rightarrow> sim \<Rightarrow> table \<Rightarrow> string \<Rightarrow> nat \<Rightarrow> jsval \<times> nat" where
  "evaluateExpr h st lv expr0 n =
     (let expr = trim expr0 in
      if evalLiteral h st expr \<noteq> None then (the (evalLiteral h st expr), n)
      else if matches (callRe ''digitalRead'' 1) expr then
        (case evaluateExpr h st lv (grp (callRe ''digitalRead'' 1) expr 1) n of
           (p, n1) \<Rightarrow> (digitalRead h (pinManager st) p, n1))
      else if matches (callRe ''analogRead'' 1) expr then
        (case evaluateExpr h st lv (grp (callRe ''analogRead'' 1) expr 1) n of
           (p, n1) \<Rightarrow> (analogRead h (pinManager st) p, n1))
      else if matches (callRe ''map'' 5) expr then
        (case evaluateExpr h st lv (grp (callRe ''map'' 5) expr 1) n of (v, n1) \<Rightarrow>
         case evaluateExpr h st lv (grp (callRe ''map'' 5) expr 2) n1 of (inMin, n2) \<Rightarrow>
         case evaluateExpr h st lv (grp (callRe ''map'' 5) expr 3) n2 of (inMax, n3) \<Rightarrow>
         case evaluateExpr h st lv (grp (callRe ''map'' 5) expr 4) n3 of (outMin, n4) \<Rightarrow>
         case evaluateExpr h st lv (grp (callRe ''map'' 5) expr 5) n4 of (outMax, n5) \<Rightarrow>
           (Num (mathRound (toNumber h
              (jsAdd h (jsDiv h (jsMul h (jsSub h v inMin) (jsSub h outMax outMin))
                                (jsSub h inMax inMin)) outMin))), n5))
      else if matches (callRe ''constrain'' 3) expr then
        (case evaluateExpr h st lv (grp (callRe ''constrain'' 3) expr 1) n of (v, n1) \<Rightarrow>
         case evaluateExpr h st lv (grp (callRe ''constrain'' 3) expr 2) n1 of (lo, n2) \<Rightarrow>
         case evaluateExpr h st lv (grp (callRe ''constrain'' 3) expr 3) n2 of (hi, n3) \<Rightarrow>
           (Num (mathMax (toNumber h lo) (mathMin (toNumber h hi) (toNumber h v))), n3))
      else if matches randomRe expr then
        (case (if hasGrp randomRe expr 1 then evaluateExpr h st lv (grp randomRe expr 1) n
               else (Num (Fin 0), n)) of (lo, n1) \<Rightarrow>
         case evaluateExpr h st lv (grp randomRe expr 2) n1 of (hi, n2) \<Rightarrow>
           (jsAdd h (Num (mathFloor (numMul (Fin (mathRandom h n2)) (toNumber h (jsSub h hi lo))))) lo,
            Suc n2))
      else if matches (callRe ''abs'' 1) expr then
        (case evaluateExpr h st lv (grp (callRe ''abs'' 1) expr 1) n of
           (v, n1) \<Rightarrow> (Num (mathAbs (toNumber h v)), n1))
      else if matches (callRe ''sqrt'' 1) expr then
        (case evaluateExpr h st lv (grp (callRe ''sqrt'' 1) expr 1) n of
           (v, n1) \<Rightarrow> (Num (mathSqrt h (toNumber h v)), n1))
      else if matches minMaxRe expr then
        (case evaluateExpr h st lv (grp minMaxRe expr 2) n of (a, n1) \<Rightarrow>
         case evaluateExpr h st lv (grp minMaxRe expr 3) n1 of (b, n2) \<Rightarrow>
           (Num (if grp minMaxRe expr 1 = ''min'' then mathMin (toNumber h a) (toNumber h b)
                 else mathMax (toNumber h a) (toNumber h b)), n2))
      else if matches (callRe ''pow'' 2) expr then
        (case evaluateExpr h st lv (grp (callRe ''pow'' 2) expr 1) n of (a, n1) \<Rightarrow>
         case evaluateExpr h st lv (grp (callRe ''pow'' 2) expr 2) n1 of (b, n2) \<Rightarrow>
           (Num (mathPow h (toNumber h a) (toNumber h b)), n2))
      else if matches (callRe ''isnan'' 1) expr then
        (case evaluateExpr h st lv (grp (callRe ''isnan'' 1) expr 1) n of
           (v, n1) \<Rightarrow> (Num (Fin (if toNumber h v = NaN then 1 else 0)), n1))
      else (evalVariable h st lv expr, n))"
  by pat_completeness (simp only: prod.inject)
termination
  apply (relation "measure (\<lambda>(h, st, lv, e, n). length e)")
  apply simp
  apply ((erule (1) call_decreases | erule (1) random_decreases | erule (1) minMax_decreases); simp)+
  done

declare evaluateExpr.simps [simp del]

subsection \<open>\<open>evaluateCondition\<close>\<close>

text \<open>
  \<open>parts.every(f)\<close> and \<open>parts.some(f)\<close> for a function that also counts the calls of
  \<open>Math.random()\<close>: both stop at the first part that decides the result.
\<close>

fun everyM :: "(string \<Rightarrow> nat \<Rightarrow> bool \<times> nat) \<Rightarrow> string list \<Rightarrow> nat \<Rightarrow> bool \<times> nat" where
  "everyM f [] n = (True, n)"
| "everyM f (p # ps) n = (case f p n of (b, n1) \<Rightarrow> if b then everyM f ps n1 else (False, n1))"

fun someM :: "(string \<Rightarrow> nat \<Rightarrow> bool \<times> nat) \<Rightarrow> string list \<Rightarrow> nat \<Rightarrow> bool \<times> nat" where
  "someM f [] n = (False, n)"
| "someM f (p # ps) n = (case f p n of (b, n1) \<Rightarrow> if b then (True, n1) else someM f ps n1)"

lemma everyM_cong [fundef_cong]:
  "ps = qs \<Longrightarrow> n = m \<Longrightarrow> (\<And>p k. p \<in> set qs \<Longrightarrow> f p k = g p k) \<Longrightarrow> everyM f ps n = everyM g qs m"
proof -
  assume e: "ps = qs" "n = m" and fg: "\<And>p k. p \<in> set qs \<Longrightarrow> f p k = g p k"
  have "(\<And>p k. p \<in> set qs \<Longrightarrow> f p k = g p k) \<Longrightarrow> everyM f qs m = everyM g qs m"
    by (induction qs arbitrary: m) (auto split: prod.splits)
  with e fg show ?thesis by simp
qed

lemma someM_cong [fundef_cong]:
  "ps = qs \<Longrightarrow> n = m \<Longrightarrow> (\<And>p k. p \<in> set qs \<Longrightarrow> f p k = g p k) \<Longrightarrow> someM f ps n = someM g qs m"
proof -
  assume e: "ps = qs" "n = m" and fg: "\<And>p k. p \<in> set qs \<Longrightarrow> f p k = g p k"
  have "(\<And>p k. p \<in> set qs \<Longrightarrow> f p k = g p k) \<Longrightarrow> someM f qs m = someM g qs m"
    by (induction qs arbitrary: m) (auto split: prod.splits)
  with e fg show ?thesis by simp
qed

text \<open>The first of the comparison operators, in the order of the source, that occurs
  in the expression, with the place where it occurs first.\<close>

definition compareOps :: "string list" where
  "compareOps = [''>='', ''<='', ''!='', ''=='', ''>'', ''<'']"

fun firstOp :: "string list \<Rightarrow> string \<Rightarrow> (string \<times> nat) option" where
  "firstOp [] expr = None"
| "firstOp (op # ops) expr =
     (case indexOf expr op of Some i \<Rightarrow> Some (op, i) | None \<Rightarrow> firstOp ops expr)"

text \<open>The comparison of two values by an operator.\<close>

definition compareBy :: "host \<Rightarrow> string \<Rightarrow> jsval \<Rightarrow> jsval \<Rightarrow> bool" where
  "compareBy h op l r =
     (if op = ''=='' then jsEq h l r
      else if op = ''!='' then \<not> jsEq h l r
      else if op = ''>'' then jsLess h r l
      else if op = ''<'' then jsLess h l r
      else if op = ''>='' then jsLessEq h r l
      else jsLessEq h l r)"

text \<open>
  The end of \<open>evaluateCondition\<close>, which does not call it again: the comparison by the
  first operator found, or else whether the value of the expression is truthy.
\<close>

definition evalComparison :: "host \<Rightarrow> sim \<Rightarrow> table \<Rightarrow> string \<Rightarrow> nat \<Rightarrow> bool \<times> nat" where
  "evalComparison h st lv expr n =
     (case firstOp compareOps expr of
        Some (op, i) \<Rightarrow>
          (case evaluateExpr h st lv (trim (take i expr)) n of (l, n1) \<Rightarrow>
           case evaluateExpr h st lv (trim (drop (i + length op) expr)) n1 of (r, n2) \<Rightarrow>
             (compareBy h op l r, n2))
      | None \<Rightarrow> (case evaluateExpr h st lv expr n of (v, n1) \<Rightarrow> (truthy v, n1)))"

function evaluateCondition :: "host \<Rightarrow> sim \<Rightarrow> table \<Rightarrow> string \<Rightarrow> nat \<Rightarrow> bool \<times> nat" where
  "evaluateCondition h st lv expr0 n =
     (let expr = trim expr0 in
      if includes_str expr ''&&''
        then everyM (\<lambda>p m. evaluateCondition h st lv (trim p) m) (splitOn ''&&'' expr) n
      else if includes_str expr ''||''
        then someM (\<lambda>p m. evaluateCondition h st lv (trim p) m) (splitOn ''||'' expr) n
      else if startsWith expr ''!''
        then (case evaluateCondition h st lv (trim (tl expr)) n of (b, n1) \<Rightarrow> (\<not> b, n1))
      else evalComparison h st lv expr n)"
  by pat_completeness (simp only: prod.inject)
termination
proof (relation "measure (\<lambda>(h, st, lv, e, n). length e)", goal_cases)
  case 1
  show ?case by simp
next
  case (2 h st lv expr0 n x p m)
  from splitOn_shorter [OF 2(2) _ 2(3)] have "length p < length x" by simp
  with length_trim [of p] length_trim [of expr0] 2(1) show ?case by simp
next
  case (3 h st lv expr0 n x p m)
  from splitOn_shorter [OF 3(3) _ 3(4)] have "length p < length x" by simp
  with length_trim [of p] length_trim [of expr0] 3(1) show ?case by simp
next
  case (4 h st lv expr0 n x)
  from 4(4) have "x \<noteq> []" by (auto simp: startsWith_def)
  then have "length (tl x) < length x" by (cases x) auto
  with length_trim [of "tl x"] length_trim [of expr0] 4(1) show ?case by simp
qed

declare evaluateCondition.simps [simp del]

section \<open>Executing statements\<close>

subsection \<open>The patterns of \<open>executeStatement\<close>, \<open>executeIfElse\<close> and \<open>tokenize\<close>\<close>

text \<open>\<open>/^delay\\s*\\(\\s*(.+)\\s*\\)/\<close> and the same for \<open>delayMicroseconds\<close>.\<close>

definition greedyCallRe :: "string \<Rightarrow> re" where
  "greedyCallRe name =
     Seq (Lit name) (seqs [ws, Lit ''('', ws, Grp 1 (plus (Cls isDot)), ws, Lit '')''])"

text \<open>\<open>/^Serial\\.begin\\s*\\(/\<close>.\<close>

definition serialBeginRe :: re where
  "serialBeginRe = seqs [Lit ''Serial.begin'', ws, Lit ''('']"

text \<open>\<open>/^Serial\\.(print|println)\\s*\\(\\s*(.*)\\s*\\)/\<close>.\<close>

definition printRe :: re where
  "printRe = seqs [Lit ''Serial.'', Grp 1 (Alt (Lit ''print'') (Lit ''println'')), ws, Lit ''('',
     ws, Grp 2 (star (Cls isDot)), ws, Lit '')'']"

text \<open>\<open>/^Serial\\.printf\\s*\\(\\s*"(.+?)"\\s*(?:,\\s*(.*))?\\s*\\)/\<close>.\<close>

definition printfRe :: re where
  "printfRe = seqs [Lit ''Serial.printf'', ws, Lit ''('', ws, Lit [dq],
     Grp 1 (lazyPlus (Cls isDot)), Lit [dq], ws,
     opt (seqs [Lit '','', ws, Grp 2 (star (Cls isDot))]), ws, Lit '')'']"

text \<open>\<open>/%(?:\\.(\\d+))?([dfsuclx%])/\<close>.\<close>

definition formatRe :: re where
  "formatRe = seqs [Lit ''%'', opt (seqs [Lit ''.'', Grp 1 (plus (Cls isDigit))]),
     Grp 2 (Cls (\<lambda>c. c \<in> set ''dfsuclx%''))]"

text \<open>\<open>/^tone\\s*\\(\\s*(.+?)\\s*,\\s*(.+?)(?:\\s*,\\s*(.+?))?\\s*\\)/\<close>.\<close>

definition toneRe :: re where
  "toneRe = seqs [Lit ''tone'', ws, Lit ''('', ws, Grp 1 (lazyPlus (Cls isDot)), ws, Lit '','', ws,
     Grp 2 (lazyPlus (Cls isDot)),
     opt (seqs [ws, Lit '','', ws, Grp 3 (lazyPlus (Cls isDot))]), ws, Lit '')'']"

text \<open>
  \<open>/^(?:(?:int|float|double|bool|long|unsigned\\s+long|byte|char|String)\\s+)?(\\w+)\\s*([\\+\\-\\*\\/]?=)\\s*(.+)/\<close>.
\<close>

definition typeRe :: re where
  "typeRe = Alt (Lit ''int'') (Alt (Lit ''float'') (Alt (Lit ''double'') (Alt (Lit ''bool'')
     (Alt (Lit ''long'') (Alt (seqs [Lit ''unsigned'', ws1, Lit ''long'']) (Alt (Lit ''byte'')
     (Alt (Lit ''char'') (Lit ''String''))))))))"

definition assignRe :: re where
  "assignRe = seqs [opt (seqs [typeRe, ws1]), Grp 1 (plus (Cls isWord)), ws,
     Grp 2 (seqs [opt (Cls (\<lambda>c. c \<in> set ''+-*/'')), Lit ''='']), ws,
     Grp 3 (plus (Cls isDot))]"

text \<open>\<open>/^(\\w+)\\s*(\\+\\+|--)$/\<close>.\<close>

definition incRe :: re where
  "incRe = seqs [Grp 1 (plus (Cls isWord)), ws, Grp 2 (Alt (Lit ''++'') (Lit ''--'')), Eol]"

text \<open>\<open>/^for\\s*\\(\\s*(.+?)\\s*;\\s*(.+?)\\s*;\\s*(.+?)\\s*\\)\\s*\\{([\\s\\S]*)\\}/\<close>.\<close>

definition forRe :: re where
  "forRe = seqs [Lit ''for'', ws, Lit ''('', ws, Grp 1 (lazyPlus (Cls isDot)), ws, Lit '';'', ws,
     Grp 2 (lazyPlus (Cls isDot)), ws, Lit '';'', ws, Grp 3 (lazyPlus (Cls isDot)), ws,
     Lit '')'', ws, Lit ''{'', Grp 4 (star (Cls isAny)), Lit ''}'']"

text \<open>\<open>/^while\\s*\\(\\s*(.+?)\\s*\\)\\s*\\{([\\s\\S]*)\\}/\<close>.\<close>

definition whileRe :: re where
  "whileRe = seqs [Lit ''while'', ws, Lit ''('', ws, Grp 1 (lazyPlus (Cls isDot)), ws,
     Lit '')'', ws, Lit ''{'', Grp 2 (star (Cls isAny)), Lit ''}'']"

text \<open>\<open>/^(\\w+)\\s*\\(\\s*(.*?)\\s*\\)/\<close>.\<close>

definition callStmtRe :: re where
  "callStmtRe = seqs [Grp 1 (plus (Cls isWord)), ws, Lit ''('', ws,
     Grp 2 (lazyStar (Cls isDot)), ws, Lit '')'']"

text \<open>\<open>/^(?:else\\s+)?if\\s*\\(\\s*(.+?)\\s*\\)\\s*\\{([\\s\\S]*?)\\}([\\s\\S]*)/\<close> and
  \<open>/^else\\s*\\{([\\s\\S]*)\\}/\<close>.\<close>

definition ifRe :: re where
  "ifRe = seqs [opt (seqs [Lit ''else'', ws1]), Lit ''if'', ws, Lit ''('', ws,
     Grp 1 (lazyPlus (Cls isDot)), ws, Lit '')'', ws, Lit ''{'', Grp 2 (lazyStar (Cls isAny)),
     Lit ''}'', Grp 3 (star (Cls isAny))]"

definition elseRe :: re where
  "elseRe = seqs [Lit ''else'', ws, Lit ''{'', Grp 1 (star (Cls isAny)), Lit ''}'']"

text \<open>\<open>/^(if|else if|else|for|while)\\b/\<close>.\<close>

definition controlRe :: re where
  "controlRe = seqs [Grp 1 (Alt (Lit ''if'') (Alt (Lit ''else if'') (Alt (Lit ''else'')
     (Alt (Lit ''for'') (Lit ''while''))))), Bnd]"

subsection \<open>\<open>tokenize\<close> and \<open>splitArgs\<close>\<close>

text \<open>
  The inner loop of \<open>tokenize\<close>: how many of the following lines a block takes in,
  given the braces still open.
\<close>

fun absorbed :: "int \<Rightarrow> string list \<Rightarrow> nat" where
  "absorbed braceCount [] = 0"
| "absorbed braceCount (l # ls) =
     (if 0 < braceCount
      then Suc (absorbed (braceCount + countChar (CHR ''{'') l - countChar (CHR ''}'') l) ls)
      else 0)"

function tokenizeLines :: "string list \<Rightarrow> string list" where
  "tokenizeLines [] = []"
| "tokenizeLines (l # rest) =
     (let line = trim l in
      if line = [] \<or> line = ''{'' \<or> line = ''}'' then tokenizeLines rest
      else if matches controlRe line then
        (if \<not> includes_str line ''{'' then
           (case rest of
              [] \<Rightarrow> [line]
            | l2 # rest2 \<Rightarrow> (line @ [newline] @ trim l2) # tokenizeLines rest2)
         else
           (let k = absorbed (countChar (CHR ''{'') line - countChar (CHR ''}'') line) rest in
            foldl (\<lambda>block x. block @ [newline] @ trim x) line (take k rest)
              # tokenizeLines (drop k rest)))
      else
        (let line2 = (if endsWith line '';'' then trim (butlast line) else line) in
         if line2 \<noteq> [] then line2 # tokenizeLines rest else tokenizeLines rest))"
  by pat_completeness auto
termination
  by (relation "measure length") auto

declare tokenizeLines.simps [simp del]

definition tokenize :: "string \<Rightarrow> string list" where
  "tokenize code = tokenizeLines (splitOn [newline] code)"

text \<open>\<open>splitArgs(argsStr)\<close>: the loop, with the depth, \<open>current\<close> and \<open>args\<close>.\<close>

fun splitArgsLoop :: "string \<Rightarrow> int \<Rightarrow> string \<Rightarrow> string list \<Rightarrow> string list" where
  "splitArgsLoop [] depth current args =
     (if trim current \<noteq> [] then args @ [trim current] else args)"
| "splitArgsLoop (ch # rest) depth current args =
     (if ch = CHR ''('' then splitArgsLoop rest (depth + 1) (current @ [ch]) args
      else if ch = CHR '')'' then splitArgsLoop rest (depth - 1) (current @ [ch]) args
      else if ch = CHR '','' \<and> depth = 0 then splitArgsLoop rest depth [] (args @ [trim current])
      else splitArgsLoop rest depth (current @ [ch]) args)"

definition splitArgs :: "string \<Rightarrow> string list" where
  "splitArgs argsStr = splitArgsLoop argsStr 0 [] []"

subsection \<open>Results\<close>

text \<open>
  How the execution of a statement ends: it returns, or it throws an exception with a
  message, in either case in a new state; or the model gives up, because the fuel that
  bounds the loops and the nesting is used up (\<open>OutOfFuel\<close>) or because the statement
  leaves the part of JavaScript the model covers (\<open>Beyond\<close>).
\<close>

datatype res = Done sim | Raised string sim | OutOfFuel | Beyond

text \<open>Evaluation against the \<open>localVars\<close> at an address; the state counts the random
  numbers drawn.\<close>

definition evalIn :: "host \<Rightarrow> sim \<Rightarrow> nat \<Rightarrow> string \<Rightarrow> jsval \<times> sim" where
  "evalIn h st lv e =
     (case evaluateExpr h st (frame st lv) e (rng st) of (v, r) \<Rightarrow> (v, st \<lparr> rng := r \<rparr>))"

definition condIn :: "host \<Rightarrow> sim \<Rightarrow> nat \<Rightarrow> string \<Rightarrow> bool \<times> sim" where
  "condIn h st lv e =
     (case evaluateCondition h st (frame st lv) e (rng st) of (b, r) \<Rightarrow> (b, st \<lparr> rng := r \<rparr>))"

definition pinDone :: "sim \<Rightarrow> pinManager option \<Rightarrow> res" where
  "pinDone st r = (case r of None \<Rightarrow> Beyond | Some m \<Rightarrow> Done (st \<lparr> pinManager := m \<rparr>))"

subsection \<open>The statements that contain no statement\<close>

text \<open>The escape sequences \<open>\\n\<close> and \<open>\\t\<close> of an output text.\<close>

definition expandEscapes :: "string \<Rightarrow> string" where
  "expandEscapes s =
     replaceAll [backslash, CHR ''t''] [tab] (replaceAll [backslash, CHR ''n''] [newline] s)"

definition doDelay :: "host \<Rightarrow> sim \<Rightarrow> nat \<Rightarrow> string \<Rightarrow> res" where
  "doDelay h st lv stmt =
     (case evalIn h st lv (grp (greedyCallRe ''delay'') stmt 1) of
        (ms, st1) \<Rightarrow> Done (sleep h st1 (numDiv (toNumber h ms) (pspeed st1))))"

definition doDelayMicroseconds :: "host \<Rightarrow> sim \<Rightarrow> nat \<Rightarrow> string \<Rightarrow> res" where
  "doDelayMicroseconds h st lv stmt =
     (case evalIn h st lv (grp (greedyCallRe ''delayMicroseconds'') stmt 1) of
        (us, st1) \<Rightarrow>
          Done (sleep h st1
            (mathMax (Fin 1) (numDiv (numDiv (toNumber h us) (Fin 1000)) (pspeed st1)))))"

definition doPrint :: "host \<Rightarrow> sim \<Rightarrow> nat \<Rightarrow> string \<Rightarrow> res" where
  "doPrint h st lv stmt =
     (let isPrintln = (grp printRe stmt 1 = ''println'');
          arg = trim (grp printRe stmt 2);
          typ = (if isPrintln then ''println'' else ''print'')
      in if arg = [] then Done (handleSerial h st (expandEscapes []) typ)
         else if startsWith arg [dq] \<and> endsWith arg [dq]
           then Done (handleSerial h st (expandEscapes (slice1 arg)) typ)
         else if startsWith arg [sq] \<and> endsWith arg [sq]
           then Done (handleSerial h st (expandEscapes (slice1 arg)) typ)
         else (case evalIn h st lv arg of
                 (v, st1) \<Rightarrow> Done (handleSerial h st1 (expandEscapes (toStr h v)) typ)))"

text \<open>Evaluating a list of argument texts from left to right.\<close>

fun evalArgs :: "host \<Rightarrow> sim \<Rightarrow> nat \<Rightarrow> string list \<Rightarrow> jsval list \<times> sim" where
  "evalArgs h st lv [] = ([], st)"
| "evalArgs h st lv (a # as) =
     (case evalIn h st lv a of (v, st1) \<Rightarrow>
      case evalArgs h st1 lv as of (vs, st2) \<Rightarrow> (v # vs, st2))"

text \<open>
  What the callback of \<open>fmt.replace\<close> returns for one format specifier, given the
  argument it takes. \<open>toFixed\<close> throws a \<open>RangeError\<close> for more than 100 digits.
\<close>

definition formatOne :: "host \<Rightarrow> caps \<Rightarrow> jsval \<Rightarrow> string + string" where
  "formatOne h c v =
     (if c 2 = Some ''f'' \<and> c 1 \<noteq> None then
        (if 100 < digitsVal 10 (the (c 1))
         then Inl ''toFixed() digits argument must be between 0 and 100''
         else Inr (toFixed h (digitsVal 10 (the (c 1))) (toNumber h v)))
      else if c 2 = Some ''d'' \<or> c 2 = Some ''u'' then Inr (numToString h (mathFloor (toNumber h v)))
      else Inr (toStr h v))"

text \<open>
  \<open>fmt.replace(/%(?:\\.(\\d+))?([dfsuclx%])/g, callback)\<close>, with the index of the next
  argument; an argument that is missing is \<open>undefined\<close>.
\<close>

fun formatScan :: "nat \<Rightarrow> host \<Rightarrow> jsval list \<Rightarrow> nat \<Rightarrow> string \<Rightarrow> string + string" where
  "formatScan 0 h args argIdx s = Inr s"
| "formatScan (Suc n) h args argIdx s =
     (case s of
        [] \<Rightarrow> Inr []
      | x # xs \<Rightarrow>
          (case reMatch formatRe s of
             None \<Rightarrow> map_sum id (\<lambda>t. x # t) (formatScan n h args argIdx xs)
           | Some c \<Rightarrow>
               (if c 2 = Some ''%''
                then map_sum id (\<lambda>t. CHR ''%'' # t)
                       (formatScan n h args argIdx (drop (length (the (c 0))) s))
                else
                  (case formatOne h c (if argIdx < length args then args ! argIdx else Undefined) of
                     Inl e \<Rightarrow> Inl e
                   | Inr out \<Rightarrow>
                       map_sum id (\<lambda>t. out @ t)
                         (formatScan n h args (Suc argIdx) (drop (length (the (c 0))) s))))))"

definition doPrintf :: "host \<Rightarrow> sim \<Rightarrow> nat \<Rightarrow> string \<Rightarrow> res" where
  "doPrintf h st lv stmt =
     (case evalArgs h st lv
             (if grp printfRe stmt 2 \<noteq> [] then splitArgs (grp printfRe stmt 2) else []) of
        (args, st1) \<Rightarrow>
          (case formatScan (length (grp printfRe stmt 1)) h args 0 (grp printfRe stmt 1) of
             Inl e \<Rightarrow> Raised e st1
           | Inr fmt \<Rightarrow> Done (handleSerial h st1 (expandEscapes fmt) ''printf'')))"

definition doPinMode :: "host \<Rightarrow> sim \<Rightarrow> nat \<Rightarrow> string \<Rightarrow> res" where
  "doPinMode h st lv stmt =
     (case evalIn h st lv (grp (callRe ''pinMode'' 2) stmt 1) of
        (p, st1) \<Rightarrow>
          pinDone st1 (pinMode h (pinManager st1) p (Str (trim (grp (callRe ''pinMode'' 2) stmt 2)))))"

definition doDigitalWrite :: "host \<Rightarrow> sim \<Rightarrow> nat \<Rightarrow> string \<Rightarrow> res" where
  "doDigitalWrite h st lv stmt =
     (case evalIn h st lv (grp (callRe ''digitalWrite'' 2) stmt 1) of
        (p, st1) \<Rightarrow>
          (let raw = trim (grp (callRe ''digitalWrite'' 2) stmt 2) in
           case (if raw = ''HIGH'' then (Num (Fin 1), st1)
                 else if raw = ''LOW'' then (Num (Fin 0), st1)
                 else evalIn h st1 lv raw) of
             (v, st2) \<Rightarrow> pinDone st2 (digitalWrite h (pinManager st2) p v)))"

text \<open>\<open>analogWrite\<close> and \<open>ledcWrite\<close>, which is \<open>analogWrite\<close> on the channel.\<close>

definition doAnalogWrite :: "string \<Rightarrow> host \<Rightarrow> sim \<Rightarrow> nat \<Rightarrow> string \<Rightarrow> res" where
  "doAnalogWrite name h st lv stmt =
     (case evalIn h st lv (grp (callRe name 2) stmt 1) of (p, st1) \<Rightarrow>
      case evalIn h st1 lv (grp (callRe name 2) stmt 2) of (v, st2) \<Rightarrow>
        pinDone st2 (analogWrite h (pinManager st2) p v))"

definition doTone :: "host \<Rightarrow> sim \<Rightarrow> nat \<Rightarrow> string \<Rightarrow> res" where
  "doTone h st lv stmt =
     (case evalIn h st lv (grp toneRe stmt 1) of (p, st1) \<Rightarrow>
      case evalIn h st1 lv (grp toneRe stmt 2) of (freq, st2) \<Rightarrow>
        pinDone st2 (analogWrite h (pinManager st2) p (Num (Fin 128))))"

definition doNoTone :: "host \<Rightarrow> sim \<Rightarrow> nat \<Rightarrow> string \<Rightarrow> res" where
  "doNoTone h st lv stmt =
     (case evalIn h st lv (grp (callRe ''noTone'' 1) stmt 1) of
        (p, st1) \<Rightarrow> pinDone st1 (analogWrite h (pinManager st1) p (Num (Fin 0))))"

text \<open>
  \<open>target[name] = v\<close>, where \<open>target\<close> is \<open>localVars\<close> if the name is in it and
  \<open>this.variables\<close> otherwise.
\<close>

definition targetTable :: "sim \<Rightarrow> nat \<Rightarrow> string \<Rightarrow> table" where
  "targetTable st lv name = (if thas (frame st lv) name then frame st lv else variables st)"

definition assignTarget :: "sim \<Rightarrow> nat \<Rightarrow> string \<Rightarrow> jsval \<Rightarrow> res" where
  "assignTarget st lv name v =
     (case tassign (targetTable st lv name) name v of
        None \<Rightarrow> Beyond
      | Some t \<Rightarrow>
          Done (if thas (frame st lv) name then setFrame st lv t else st \<lparr> variables := t \<rparr>))"

text \<open>\<open>target[name] || 0\<close>.\<close>

definition orZero :: "jsval \<Rightarrow> jsval" where
  "orZero v = (if truthy v then v else Num (Fin 0))"

definition doAssign :: "host \<Rightarrow> sim \<Rightarrow> nat \<Rightarrow> string \<Rightarrow> res" where
  "doAssign h st lv stmt =
     (let name = grp assignRe stmt 1; op = grp assignRe stmt 2 in
      case evalIn h st lv (trim (grp assignRe stmt 3)) of
        (v, st1) \<Rightarrow>
          (let old = orZero (tget (targetTable st1 lv name) name) in
           if op = ''='' then assignTarget st1 lv name v
           else if op = ''+='' then assignTarget st1 lv name (jsAdd h old v)
           else if op = ''-='' then assignTarget st1 lv name (jsSub h old v)
           else if op = ''*='' then assignTarget st1 lv name (jsMul h old v)
           else if op = ''/='' then assignTarget st1 lv name (jsDiv h old v)
           else Done st1))"

definition doIncrement :: "host \<Rightarrow> sim \<Rightarrow> nat \<Rightarrow> string \<Rightarrow> res" where
  "doIncrement h st lv stmt =
     (let name = grp incRe stmt 1;
          old = orZero (tget (targetTable st lv name) name)
      in if grp incRe stmt 2 = ''++'' then assignTarget st lv name (jsAdd h old (Num (Fin 1)))
         else assignTarget st lv name (jsSub h old (Num (Fin 1))))"

text \<open>
  The first thirteen forms of \<open>executeStatement\<close>, in the order of the source;
  \<open>None\<close> when the statement has none of these forms.
\<close>

definition simpleStatement :: "host \<Rightarrow> sim \<Rightarrow> nat \<Rightarrow> string \<Rightarrow> res option" where
  "simpleStatement h st lv stmt =
     (if matches (greedyCallRe ''delay'') stmt then Some (doDelay h st lv stmt)
      else if matches (greedyCallRe ''delayMicroseconds'') stmt
        then Some (doDelayMicroseconds h st lv stmt)
      else if matches serialBeginRe stmt
        then Some (Done (handleSerial h st ''[System] Serial initialized'' ''system''))
      else if matches printRe stmt then Some (doPrint h st lv stmt)
      else if matches printfRe stmt then Some (doPrintf h st lv stmt)
      else if matches (callRe ''pinMode'' 2) stmt then Some (doPinMode h st lv stmt)
      else if matches (callRe ''digitalWrite'' 2) stmt then Some (doDigitalWrite h st lv stmt)
      else if matches (callRe ''analogWrite'' 2) stmt
        then Some (doAnalogWrite ''analogWrite'' h st lv stmt)
      else if matches (callRe ''ledcWrite'' 2) stmt
        then Some (doAnalogWrite ''ledcWrite'' h st lv stmt)
      else if matches toneRe stmt then Some (doTone h st lv stmt)
      else if matches (callRe ''noTone'' 1) stmt then Some (doNoTone h st lv stmt)
      else if matches assignRe stmt then Some (doAssign h st lv stmt)
      else if matches incRe stmt then Some (doIncrement h st lv stmt)
      else None)"

subsection \<open>Calls of user-defined functions\<close>

text \<open>
  The loop \<open>func.params.forEach((p, i) => { funcLocals[p] = args[i] ? evaluateExpr(args[i], localVars) : 0 })\<close>.
  \<open>funcLocals\<close> is used for its own properties only, so the assignment to the
  parameter name \<open>__proto__\<close>, which creates none, has no effect.
\<close>

fun bindParams :: "host \<Rightarrow> sim \<Rightarrow> nat \<Rightarrow> string list \<Rightarrow> string list \<Rightarrow> table \<Rightarrow> table \<times> sim" where
  "bindParams h st lv [] args funcLocals = (funcLocals, st)"
| "bindParams h st lv (p # ps) args funcLocals =
     (case (if args \<noteq> [] \<and> hd args \<noteq> [] then evalIn h st lv (hd args) else (Num (Fin 0), st)) of
        (v, st1) \<Rightarrow>
          bindParams h st1 lv ps (tl args) (if p = ''__proto__'' then funcLocals else tset p v funcLocals))"

text \<open>\<open>s.replace(/;$/, '')\<close>.\<close>

definition dropSemicolon :: "string \<Rightarrow> string" where
  "dropSemicolon s = (if endsWith s '';'' then butlast s else s)"

definition isIfElse :: "string \<Rightarrow> bool" where
  "isIfElse s = (startsWith s ''if'' \<or> startsWith s ''else if'' \<or> startsWith s ''else'')"

subsection \<open>\<open>execute\<close>, \<open>executeStatement\<close>, \<open>executeIfElse\<close> and the loops\<close>

text \<open>The message of the \<open>TypeError\<close> that \<open>undefined.forEach\<close> throws.\<close>

definition forEachError :: string where
  "forEachError = ''Cannot read properties of undefined (reading '' @ [sq] @ ''forEach'' @ [sq] @ '')''"

text \<open>
  \<open>execute\<close>, \<open>executeStatement\<close> and \<open>executeIfElse\<close> call one another, and a loop of
  a sketch need not end. A \<open>task\<close> names one of these calls with its arguments (the
  statements, and the address \<open>lv\<close> of the \<open>localVars\<close> object they are executed
  against); \<open>ForLoop\<close> and \<open>WhileLoop\<close> are the \<open>while\<close> loops inside the two
  branches of \<open>executeStatement\<close>, with the condition, the text of the block, the step
  or the iteration count. Each of the following definitions is the body of one of the
  functions, with \<open>call\<close> for the calls it makes.
\<close>

datatype task =
    Execute "string list" nat
  | ExecuteStatement string nat
  | ExecuteIfElse string nat
  | ForLoop string string string nat
  | WhileLoop string string nat nat

definition executeBody :: "(task \<Rightarrow> sim \<Rightarrow> res) \<Rightarrow> string list \<Rightarrow> nat \<Rightarrow> sim \<Rightarrow> res" where
  "executeBody call stmts lv st =
     (case stmts of
        [] \<Rightarrow> Done st
      | stmt # rest \<Rightarrow>
          (if \<not> prunning st then Done st
           else (case call (ExecuteStatement stmt lv) st of
                   Done st1 \<Rightarrow> call (Execute rest lv) st1
                 | r \<Rightarrow> r)))"

text \<open>
  The last branch of \<open>executeStatement\<close>, the call of a user-defined function;
  \<open>callArgs\<close> is \<open>funcCallMatch[2] ? this.splitArgs(funcCallMatch[2]) : []\<close>.
  \<open>this.functions[name]\<close> also finds what the table inherits from \<open>Object.prototype\<close>,
  where \<open>func.params\<close> is \<open>undefined\<close> and \<open>forEach\<close> on it throws a \<open>TypeError\<close>.
\<close>

definition callArgs :: "string \<Rightarrow> string list" where
  "callArgs stmt =
     (if grp callStmtRe stmt 2 \<noteq> [] then splitArgs (grp callStmtRe stmt 2) else [])"

definition callFunction :: "host \<Rightarrow> (task \<Rightarrow> sim \<Rightarrow> res) \<Rightarrow> string \<Rightarrow> nat \<Rightarrow> sim \<Rightarrow> res" where
  "callFunction h call stmt lv st =
     (case map_of (funcs st) (grp callStmtRe stmt 1) of
        Some f \<Rightarrow>
          (case bindParams h st lv (params f) (callArgs stmt) [] of
             (funcLocals, st1) \<Rightarrow>
               (case newFrame st1 (spread (frame st1 lv) funcLocals) of
                  (callee, st2) \<Rightarrow> call (Execute (body f) callee) st2))
      | None \<Rightarrow>
          (if grp callStmtRe stmt 1 \<in> set protoKeys then Raised forEachError st
           else Done st))"

definition executeStatementBody ::
  "host \<Rightarrow> (task \<Rightarrow> sim \<Rightarrow> res) \<Rightarrow> string \<Rightarrow> nat \<Rightarrow> sim \<Rightarrow> res" where
  "executeStatementBody h call stmt lv st =
     (if \<not> prunning st then Done st
      else (case simpleStatement h st lv stmt of
              Some r \<Rightarrow> r
            | None \<Rightarrow>
                (if isIfElse stmt then call (ExecuteIfElse stmt lv) st
                 else if matches forRe stmt then
                   (case call (ExecuteStatement (dropSemicolon (grp forRe stmt 1)) lv) st of
                      Done st1 \<Rightarrow>
                        call (ForLoop (grp forRe stmt 2) (grp forRe stmt 4) (grp forRe stmt 3) lv) st1
                    | r \<Rightarrow> r)
                 else if matches whileRe stmt then
                   call (WhileLoop (grp whileRe stmt 1) (grp whileRe stmt 2) 0 lv) st
                 else if matches callStmtRe stmt then callFunction h call stmt lv st
                 else Done st)))"

definition executeIfElseBody ::
  "host \<Rightarrow> (task \<Rightarrow> sim \<Rightarrow> res) \<Rightarrow> string \<Rightarrow> nat \<Rightarrow> sim \<Rightarrow> res" where
  "executeIfElseBody h call stmt lv st =
     (if matches ifRe stmt then
        (case condIn h st lv (grp ifRe stmt 1) of
           (b, st1) \<Rightarrow>
             (if b then call (Execute (tokenize (grp ifRe stmt 2)) lv) st1
              else if startsWith (trim (grp ifRe stmt 3)) ''else if'' \<or>
                      startsWith (trim (grp ifRe stmt 3)) ''else''
                then call (ExecuteIfElse (trim (grp ifRe stmt 3)) lv) st1
              else Done st1))
      else if matches elseRe stmt then call (Execute (tokenize (grp elseRe stmt 1)) lv) st
      else Done st)"

definition forLoopBody ::
  "host \<Rightarrow> (task \<Rightarrow> sim \<Rightarrow> res) \<Rightarrow> string \<Rightarrow> string \<Rightarrow> string \<Rightarrow> nat \<Rightarrow> sim \<Rightarrow> res" where
  "forLoopBody h call cond block step lv st =
     (if \<not> prunning st then Done st
      else (case condIn h st lv cond of
              (b, st1) \<Rightarrow>
                (if \<not> b then Done st1
                 else (case call (Execute (tokenize block) lv) st1 of
                         Done st2 \<Rightarrow>
                           (case call (ExecuteStatement step lv) st2 of
                              Done st3 \<Rightarrow> call (ForLoop cond block step lv) (sleep h st3 (Fin 1))
                            | r \<Rightarrow> r)
                       | r \<Rightarrow> r))))"

definition whileLoopBody ::
  "host \<Rightarrow> (task \<Rightarrow> sim \<Rightarrow> res) \<Rightarrow> string \<Rightarrow> string \<Rightarrow> nat \<Rightarrow> nat \<Rightarrow> sim \<Rightarrow> res" where
  "whileLoopBody h call cond block iterations lv st =
     (if \<not> prunning st then Done st
      else (case condIn h st lv cond of
              (b, st1) \<Rightarrow>
                (if \<not> b then Done st1
                 else (case call (Execute (tokenize block) lv) st1 of
                         Done st2 \<Rightarrow>
                           call (WhileLoop cond block (Suc iterations) lv)
                             (if Suc iterations mod 100 = 0 then sleep h st2 (Fin 1) else st2)
                       | r \<Rightarrow> r))))"

text \<open>
  Running a task with fuel: every call made from one body to another gets one unit
  less, and a call without fuel ends as \<open>OutOfFuel\<close>.
\<close>

primrec run :: "nat \<Rightarrow> host \<Rightarrow> task \<Rightarrow> sim \<Rightarrow> res" where
  "run 0 h t st = OutOfFuel"
| "run (Suc n) h t st =
     (case t of
        Execute stmts lv \<Rightarrow> executeBody (run n h) stmts lv st
      | ExecuteStatement stmt lv \<Rightarrow> executeStatementBody h (run n h) stmt lv st
      | ExecuteIfElse stmt lv \<Rightarrow> executeIfElseBody h (run n h) stmt lv st
      | ForLoop cond block step lv \<Rightarrow> forLoopBody h (run n h) cond block step lv st
      | WhileLoop cond block iterations lv \<Rightarrow>
          whileLoopBody h (run n h) cond block iterations lv st)"

definition execute :: "nat \<Rightarrow> host \<Rightarrow> string list \<Rightarrow> nat \<Rightarrow> sim \<Rightarrow> res" where
  "execute n h stmts lv st = run n h (Execute stmts lv) st"


definition executeIfElse :: "nat \<Rightarrow> host \<Rightarrow> string \<Rightarrow> nat \<Rightarrow> sim \<Rightarrow> res" where
  "executeIfElse n h stmt lv st = run n h (ExecuteIfElse stmt lv) st"

section \<open>Parsing a sketch\<close>

text \<open>
  \<open>s.match(/r/)\<close> for a pattern that is not anchored: the first place where it
  matches, with the groups; and the successive matches of \<open>r.exec(s)\<close> for a pattern
  with the flag \<open>g\<close> that matches no empty string.
\<close>

fun reSearchFrom :: "re \<Rightarrow> char option \<Rightarrow> string \<Rightarrow> nat \<Rightarrow> (nat \<times> caps) option" where
  "reSearchFrom r p [] i =
     (case rmatch (Grp 0 r) p [] (\<lambda>i. None) (\<lambda>p' s' c. Some c) of
        Some c \<Rightarrow> Some (i, c)
      | None \<Rightarrow> None)"
| "reSearchFrom r p (x # xs) i =
     (case rmatch (Grp 0 r) p (x # xs) (\<lambda>i. None) (\<lambda>p' s' c. Some c) of
        Some c \<Rightarrow> Some (i, c)
      | None \<Rightarrow> reSearchFrom r (Some x) xs (Suc i))"

definition reSearch :: "re \<Rightarrow> string \<Rightarrow> (nat \<times> caps) option" where
  "reSearch r s = reSearchFrom r None s 0"

fun reAllFrom :: "nat \<Rightarrow> re \<Rightarrow> string \<Rightarrow> nat \<Rightarrow> (nat \<times> caps) list" where
  "reAllFrom 0 r s i = []"
| "reAllFrom (Suc n) r s i =
     (case reSearchFrom r (if i = 0 then None else Some (s ! (i - 1))) (drop i s) i of
        None \<Rightarrow> []
      | Some (j, c) \<Rightarrow>
          (if the (c 0) = [] then [(j, c)]
           else (j, c) # reAllFrom n r s (j + length (the (c 0)))))"

definition reAll :: "re \<Rightarrow> string \<Rightarrow> (nat \<times> caps) list" where
  "reAll r s = reAllFrom (Suc (length s)) r s 0"

text \<open>\<open>/\\/\\/.*$/gm\<close> and \<open>/\\/\\*[\\s\\S]*?\\*\\//g\<close>. The dot matches no line terminator, so
  the longest match of \<open>.*\<close> ends where \<open>$\<close> holds.\<close>

definition lineCommentRe :: re where
  "lineCommentRe = seqs [Lit ''//'', star (Cls isDot)]"

definition blockCommentRe :: re where
  "blockCommentRe = seqs [Lit ''/*'', lazyStar (Cls isAny), Lit ''*/'']"

text \<open>\<open>/^(void|int|float|double|bool|String)\\s+\\w+\\s*\\(/\<close>, \<open>/#define\\s+(\\w+)\\s+(.+)/\<close>
  and
  \<open>/^(?:const\\s+)?(?:int|float|double|bool|long|unsigned\\s+long|byte|char|String)\\s+(\\w+)\\s*(?:=\\s*(.+))?;/\<close>.\<close>

definition signatureRe :: re where
  "signatureRe = seqs [Grp 1 (Alt (Lit ''void'') (Alt (Lit ''int'') (Alt (Lit ''float'')
     (Alt (Lit ''double'') (Alt (Lit ''bool'') (Lit ''String'')))))), ws1, plus (Cls isWord), ws,
     Lit ''('']"

definition defineRe :: re where
  "defineRe = seqs [Lit ''#define'', ws1, Grp 1 (plus (Cls isWord)), ws1, Grp 2 (plus (Cls isDot))]"

definition declarationRe :: re where
  "declarationRe = seqs [opt (seqs [Lit ''const'', ws1]), typeRe, ws1, Grp 1 (plus (Cls isWord)), ws,
     opt (seqs [Lit ''='', ws, Grp 2 (plus (Cls isDot))]), Lit '';'']"

text \<open>\<open>/void\\s+setup\\s*\\(\\s*\\)\\s*\\{/\<close>, the same for \<open>loop\<close>, and
  \<open>/(?:void|int|float|double|bool|String|long|unsigned)\\s+(\\w+)\\s*\\(([^)]*)\\)\\s*\\{/g\<close>.\<close>

definition entryRe :: "string \<Rightarrow> re" where
  "entryRe name = seqs [Lit ''void'', ws1, Lit name, ws, Lit ''('', ws, Lit '')'', ws, Lit ''{'']"

definition funcRe :: re where
  "funcRe = seqs [Alt (Lit ''void'') (Alt (Lit ''int'') (Alt (Lit ''float'') (Alt (Lit ''double'')
     (Alt (Lit ''bool'') (Alt (Lit ''String'') (Alt (Lit ''long'') (Lit ''unsigned''))))))), ws1,
     Grp 1 (plus (Cls isWord)), ws, Lit ''('', Grp 2 (star (Cls (\<lambda>c. c \<noteq> CHR '')''))), Lit '')'', ws,
     Lit ''{'']"

text \<open>\<open>parseValue(str)\<close>, reading the table of globals extracted so far.\<close>

definition parseValue :: "table \<Rightarrow> string \<Rightarrow> jsval" where
  "parseValue vars str0 =
     (let s1 = trim str0;
          str = (if endsWith s1 '';'' then trim (butlast s1) else s1)
      in if str = ''true'' \<or> str = ''HIGH'' then Num (Fin 1)
         else if str = ''false'' \<or> str = ''LOW'' then Num (Fin 0)
         else if matches numRe str then Num (parseFloat str)
         else if matches hexRe str then Num (parseHex str)
         else if startsWith str [dq] \<and> endsWith str [dq] then Str (slice1 str)
         else if thas vars str then tget vars str
         else Num (Fin 0))"

text \<open>\<open>extractGlobals\<close>: the loop over the lines, with \<open>this.variables\<close>.\<close>

fun extractGlobalsLoop :: "string list \<Rightarrow> table \<Rightarrow> table option" where
  "extractGlobalsLoop [] vars = Some vars"
| "extractGlobalsLoop (line # lines) vars =
     (let trimmed = trim line in
      if matches signatureRe trimmed then extractGlobalsLoop lines vars
      else if startsWith trimmed ''#'' then
        (case reSearch defineRe trimmed of
           Some (i, c) \<Rightarrow>
             (case tassign vars (the (c 1)) (parseValue vars (trim (the (c 2)))) of
                None \<Rightarrow> None
              | Some vars' \<Rightarrow> extractGlobalsLoop lines vars')
         | None \<Rightarrow> extractGlobalsLoop lines vars)
      else if matches declarationRe trimmed then
        (case tassign vars (grp declarationRe trimmed 1)
                (if grp declarationRe trimmed 2 \<noteq> []
                 then parseValue vars (trim (grp declarationRe trimmed 2))
                 else Num (Fin 0)) of
           None \<Rightarrow> None
         | Some vars' \<Rightarrow> extractGlobalsLoop lines vars')
      else extractGlobalsLoop lines vars)"

definition extractGlobals :: "string \<Rightarrow> table \<Rightarrow> table option" where
  "extractGlobals code vars = extractGlobalsLoop (splitOn [newline] code) vars"

text \<open>
  \<open>extractBlock(code, startIdx)\<close>: the loop from index \<open>i\<close>, over the rest of the
  code, with \<open>depth\<close> and \<open>start\<close>.
\<close>

fun extractBlockLoop :: "string \<Rightarrow> nat \<Rightarrow> string \<Rightarrow> int \<Rightarrow> nat \<Rightarrow> string" where
  "extractBlockLoop code i [] depth start = []"
| "extractBlockLoop code i (c # cs) depth start =
     (if c = CHR ''{'' then
        extractBlockLoop code (Suc i) cs (depth + 1) (if depth = 0 then Suc i else start)
      else if c = CHR ''}'' then
        (if depth - 1 = 0 then trim (take (i - start) (drop start code))
         else extractBlockLoop code (Suc i) cs (depth - 1) start)
      else extractBlockLoop code (Suc i) cs depth start)"

definition extractBlock :: "string \<Rightarrow> nat \<Rightarrow> string" where
  "extractBlock code startIdx = extractBlockLoop code startIdx (drop startIdx code) 0 0"

text \<open>\<open>p.trim().split(/\\s+/).pop()\<close>: what follows the last white space.\<close>

definition lastWord :: "string \<Rightarrow> string" where
  "lastWord p = rev (takeWhile (\<lambda>c. \<not> isSpace c) (rev (trim p)))"

definition paramNames :: "string \<Rightarrow> string list" where
  "paramNames s = filter (\<lambda>p. p \<noteq> []) (map lastWord (splitOn '','' s))"

text \<open>
  The loop over the function definitions found. The assignment
  \<open>this.functions[name] = { params, body }\<close> under the name \<open>__proto__\<close> would replace
  the prototype of the table, which the model does not follow.
\<close>

fun defineFunctions :: "string \<Rightarrow> (nat \<times> caps) list \<Rightarrow> (string \<times> func) list \<Rightarrow> (string \<times> func) list option" where
  "defineFunctions code [] fs = Some fs"
| "defineFunctions code ((i, c) # ms) fs =
     (let name = the (c 1) in
      if name = ''setup'' \<or> name = ''loop'' then defineFunctions code ms fs
      else if name = ''__proto__'' then None
      else
        (let f = \<lparr> params = paramNames (the (c 2)),
                   body = tokenize (extractBlock code (i + length (the (c 0)) - 1)) \<rparr>
         in defineFunctions code ms
              (if map_of fs name \<noteq> None then map (\<lambda>(k, g). if k = name then (k, f) else (k, g)) fs
               else fs @ [(name, f)])))"

text \<open>The body of \<open>setup\<close> or \<open>loop\<close>, tokenized; no statement if there is none.\<close>

definition entryCode :: "string \<Rightarrow> string \<Rightarrow> string list" where
  "entryCode name code =
     (case reSearch (entryRe name) code of
        None \<Rightarrow> []
      | Some (i, c) \<Rightarrow> tokenize (extractBlock code (i + length (the (c 0)) - 1)))"

text \<open>\<open>ArduinoParser.parse(code)\<close>.\<close>

definition parse :: "string \<Rightarrow> sim \<Rightarrow> sim option" where
  "parse code0 st =
     (let code = reReplace blockCommentRe [] (reReplace lineCommentRe [] code0) in
      case extractGlobals code [] of
        None \<Rightarrow> None
      | Some vars \<Rightarrow>
          (case defineFunctions code (reAll funcRe code) [] of
             None \<Rightarrow> None
           | Some fs \<Rightarrow>
               Some (st \<lparr> variables := vars, funcs := fs,
                          setupCode := entryCode ''setup'' code,
                          loopCode := entryCode ''loop'' code \<rparr>)))"

section \<open>The engine\<close>

text \<open>
  The loop \<open>while (this.running) { await this.parser.execute(this.parser.loopCode); await new
  Promise(r => setTimeout(r, 1)); }\<close> of \<open>start\<close>; \<open>k\<close> bounds the iterations and \<open>n\<close> is the
  fuel of each execution of the loop code, which gets a new \<open>localVars\<close> object.
\<close>

fun mainLoop :: "nat \<Rightarrow> nat \<Rightarrow> host \<Rightarrow> sim \<Rightarrow> res" where
  "mainLoop 0 n h st = OutOfFuel"
| "mainLoop (Suc k) n h st =
     (if \<not> running st then Done st
      else (case newFrame st [] of
              (lv, st1) \<Rightarrow>
                (case execute n h (loopCode st1) lv st1 of
                   Done st2 \<Rightarrow> mainLoop k n h (suspend h st2 (Fin 1))
                 | r \<Rightarrow> r)))"

text \<open>The \<open>try\<close> block of \<open>start\<close>.\<close>

definition startBody :: "nat \<Rightarrow> host \<Rightarrow> string \<Rightarrow> sim \<Rightarrow> res" where
  "startBody n h code st =
     (case parse code st of
        None \<Rightarrow> Beyond
      | Some st1 \<Rightarrow>
          (case newFrame st1 [] of
             (lv, st2) \<Rightarrow>
               (case execute n h (setupCode st2) lv st2 of
                  Done st3 \<Rightarrow> mainLoop n n h st3
                | r \<Rightarrow> r)))"

text \<open>What follows the \<open>try\<close> statement of \<open>start\<close>.\<close>

definition afterRun :: "sim \<Rightarrow> sim" where
  "afterRun st = (if \<not> running st then notifyStatus st ''stopped'' else st)"

text \<open>
  \<open>Engine.start(code)\<close>. \<open>begun\<close> is the state after the assignments that precede the
  \<open>try\<close> block. An exception thrown in the \<open>try\<close> block is caught there: its
  message goes to \<open>handleSerial\<close> and the status \<open>error\<close> to the status listeners.
\<close>

definition begun :: "sim \<Rightarrow> sim" where
  "begun st =
     notifyStatus (st \<lparr> running := True, prunning := True, startTime := dateNow st,
                        pstartTime := dateNow st, pspeed := speed st \<rparr>) ''running''"

definition start :: "nat \<Rightarrow> host \<Rightarrow> string \<Rightarrow> sim \<Rightarrow> res" where
  "start n h code st =
     (if running st then Done st
      else
        (case startBody n h code (begun st) of
           Done st1 \<Rightarrow> Done (afterRun st1)
         | Raised msg st1 \<Rightarrow>
             Done (afterRun (notifyStatus (handleSerial h st1 (''[Error] '' @ msg) ''error'') ''error''))
         | OutOfFuel \<Rightarrow> OutOfFuel
         | Beyond \<Rightarrow> Beyond))"

subsection \<open>Saving and loading a circuit\<close>

text \<open>
  A component or a wire is an object, given by its properties. \<open>getField c k\<close> is \<open>c.k\<close>,
  and \<open>truthyJson\<close> is \<open>ToBoolean\<close> on these values.
\<close>

definition getField :: "(string \<times> json) list \<Rightarrow> string \<Rightarrow> json" where
  "getField c k = (case map_of c k of Some v \<Rightarrow> v | None \<Rightarrow> JUndefined)"

fun truthyJson :: "json \<Rightarrow> bool" where
  "truthyJson JNull = False"
| "truthyJson JUndefined = False"
| "truthyJson (JBool b) = b"
| "truthyJson (JNum x) = truthy (Num x)"
| "truthyJson (JStr s) = (s \<noteq> [])"
| "truthyJson (JArr xs) = True"
| "truthyJson (JObj kvs) = True"

definition part :: "(string \<times> json) list \<Rightarrow> json" where
  "part c = JObj [(''type'', getField c ''type''), (''id'', getField c ''id''),
     (''attrs'', if truthyJson (getField c ''attrs'') then getField c ''attrs'' else JObj []),
     (''position'', getField c ''position'')]"

definition connection :: "(string \<times> json) list \<Rightarrow> json" where
  "connection w = JObj [(''from'', getField w ''from''), (''to'', getField w ''to''),
     (''color'', getField w ''color'')]"

text \<open>The structure \<open>exportCircuit\<close> hands to \<open>JSON.stringify\<close>.\<close>

definition circuit :: "(string \<times> json) list list \<Rightarrow> (string \<times> json) list list \<Rightarrow> json" where
  "circuit components wires =
     JObj [(''version'', JNum (Fin 1)), (''editor'', JStr ''esp32-simulator''),
           (''parts'', JArr (map part components)),
           (''connections'', JArr (map connection wires))]"

definition exportCircuit :: "host \<Rightarrow> (string \<times> json) list list \<Rightarrow> (string \<times> json) list list \<Rightarrow> string" where
  "exportCircuit h components wires = jsonStringify h (circuit components wires)"

text \<open>\<open>importCircuit(json)\<close>: the structure parsed, or \<open>null\<close> after an error event.\<close>

definition importCircuit :: "host \<Rightarrow> sim \<Rightarrow> string \<Rightarrow> json \<times> sim" where
  "importCircuit h st s =
     (case jsonParse h s of
        Inr v \<Rightarrow> (v, st)
      | Inl msg \<Rightarrow> (JNull, handleSerial h st (''[Error] Invalid circuit file: '' @ msg) ''error''))"

text \<open>The property \<open>k\<close> of a parsed structure.\<close>

definition fieldOf :: "json \<Rightarrow> string \<Rightarrow> json" where
  "fieldOf v k = (case v of JObj kvs \<Rightarrow> getField kvs k | _ \<Rightarrow> JUndefined)"

section \<open>Notions for the properties\<close>







section \<open>Example states\<close>



section \<open>Properties of a run\<close>

subsection \<open>More fuel\<close>

lemma executeBody_mono:
  assumes "\<And>t s. c t s \<noteq> OutOfFuel \<Longrightarrow> c' t s = c t s"
    and "executeBody c stmts lv st \<noteq> OutOfFuel"
  shows "executeBody c' stmts lv st = executeBody c stmts lv st"
  using assms by (auto simp: executeBody_def split: list.splits res.splits)

lemma callFunction_mono:
  assumes "\<And>t s. c t s \<noteq> OutOfFuel \<Longrightarrow> c' t s = c t s"
    and "callFunction h c stmt lv st \<noteq> OutOfFuel"
  shows "callFunction h c' stmt lv st = callFunction h c stmt lv st"
  using assms by (auto simp: callFunction_def split: option.splits prod.splits)

lemma executeStatementBody_mono:
  assumes "\<And>t s. c t s \<noteq> OutOfFuel \<Longrightarrow> c' t s = c t s"
    and "executeStatementBody h c stmt lv st \<noteq> OutOfFuel"
  shows "executeStatementBody h c' stmt lv st = executeStatementBody h c stmt lv st"
  using assms callFunction_mono [of c c' h stmt lv st]
  by (auto simp: executeStatementBody_def split: option.splits res.splits)

lemma executeIfElseBody_mono:
  assumes "\<And>t s. c t s \<noteq> OutOfFuel \<Longrightarrow> c' t s = c t s"
    and "executeIfElseBody h c stmt lv st \<noteq> OutOfFuel"
  shows "executeIfElseBody h c' stmt lv st = executeIfElseBody h c stmt lv st"
  using assms by (auto simp: executeIfElseBody_def split: prod.splits)

lemma forLoopBody_mono:
  assumes "\<And>t s. c t s \<noteq> OutOfFuel \<Longrightarrow> c' t s = c t s"
    and "forLoopBody h c cond block step lv st \<noteq> OutOfFuel"
  shows "forLoopBody h c' cond block step lv st = forLoopBody h c cond block step lv st"
  using assms by (auto simp: forLoopBody_def split: prod.splits res.splits)

lemma whileLoopBody_mono:
  assumes "\<And>t s. c t s \<noteq> OutOfFuel \<Longrightarrow> c' t s = c t s"
    and "whileLoopBody h c cond block k lv st \<noteq> OutOfFuel"
  shows "whileLoopBody h c' cond block k lv st = whileLoopBody h c cond block k lv st"
  using assms by (auto simp: whileLoopBody_def split: prod.splits res.splits)

lemma run_Suc:
  "run n h t st \<noteq> OutOfFuel \<Longrightarrow> run (Suc n) h t st = run n h t st"
proof (induction n arbitrary: t st)
  case 0
  then show ?case by simp
next
  case (Suc n)
  have ih: "\<And>t s. run n h t s \<noteq> OutOfFuel \<Longrightarrow> run (Suc n) h t s = run n h t s"
    by (rule Suc.IH)
  show ?case
  proof (cases t)
    case (Execute stmts lv)
    with Suc.prems executeBody_mono [of "run n h" "run (Suc n) h", OF ih] show ?thesis by simp
  next
    case (ExecuteStatement stmt lv)
    with Suc.prems executeStatementBody_mono [of "run n h" "run (Suc n) h", OF ih] show ?thesis by simp
  next
    case (ExecuteIfElse stmt lv)
    with Suc.prems executeIfElseBody_mono [of "run n h" "run (Suc n) h", OF ih] show ?thesis by simp
  next
    case (ForLoop cond block step lv)
    with Suc.prems forLoopBody_mono [of "run n h" "run (Suc n) h", OF ih] show ?thesis by simp
  next
    case (WhileLoop cond block k lv)
    with Suc.prems whileLoopBody_mono [of "run n h" "run (Suc n) h", OF ih] show ?thesis by simp
  qed
qed

lemma run_more:
  "run n h t st \<noteq> OutOfFuel \<Longrightarrow> n \<le> m \<Longrightarrow> run m h t st = run n h t st"
proof (induction m)
  case 0
  then show ?case by simp
next
  case (Suc m)
  show ?case
  proof (cases "n = Suc m")
    case True
    then show ?thesis by simp
  next
    case False
    with Suc.prems have le: "n \<le> m" by simp
    with Suc have eq: "run m h t st = run n h t st" by simp
    with Suc.prems have "run m h t st \<noteq> OutOfFuel" by simp
    from run_Suc [OF this] eq show ?thesis by simp
  qed
qed

subsection \<open>What a run changes\<close>
















lemma prunning_handleSerial: "prunning (handleSerial h st text typ) = prunning st"
  by (simp add: handleSerial_def)

















subsection \<open>The bodies and the run\<close>











subsection \<open>Tables\<close>









subsection \<open>Parameters\<close>




section \<open>Properties of the PinManager\<close>

lemma map_of_updAL:
  "map_of (updAL k f ps) j = (if j = k then map_option f (map_of ps k) else map_of ps j)"
  by (induction ps) auto

lemma pins_notify [simp]: "pins (notify pm p s) = pins pm"
  by (simp add: notify_def)

lemma pins_setProps:
  "map_of (pins (setProps pm s f)) j =
     (case s of
        Own k \<Rightarrow> if j = k then map_option f (map_of (pins pm) k) else map_of (pins pm) j
      | Inherited k \<Rightarrow> map_of (pins pm) j)"
  by (simp add: setProps_def map_of_updAL split: slot.splits)

lemma lookupPin_Own:
  "lookupPin pm k = Some (Own j) \<Longrightarrow> j = k \<and> map_of (pins pm) k \<noteq> None"
  by (auto simp: lookupPin_def split: if_splits)



lemma withPin_cases:
  assumes "withPin pm k f = Some pm'"
  obtains "lookupPin pm k = None" "pm' = pm"
  | s where "lookupPin pm k = Some s" "pm' = f s"
  using assms by (auto simp: withPin_def split: option.splits if_splits)

lemma powerRails_notify [simp]: "powerRails (notify pm p s) = powerRails pm"
  by (simp add: powerRails_def)

lemma powerRails_setProps_other:
  "lookupPin pm k = Some s \<Longrightarrow> k \<notin> set powerKeys \<Longrightarrow>
   powerRails (setProps pm s f) = powerRails pm"
  by (cases s) (auto simp: powerRails_def pins_setProps dest: lookupPin_Own)

lemma powerRails_setProps_keep:
  "(\<And>q. mode (f q) = mode q \<and> val (f q) = val q) \<Longrightarrow>
   powerRails (setProps pm s f) = powerRails pm"
  by (cases s) (auto simp: powerRails_def pins_setProps map_option_case split: option.splits)

lemma powerRails_applyOp:
  assumes "applyOp h pm x = Some pm'"
    and "setsModeOrValue x \<longrightarrow> toStr h (opPin x) \<notin> set powerKeys"
  shows "powerRails pm' = powerRails pm"
proof (cases x)
  case (PinMode p m)
  with assms show ?thesis
    by (auto simp: pinMode_def powerRails_setProps_other elim!: withPin_cases)
next
  case (DigitalWrite p v)
  with assms show ?thesis
    by (auto simp: digitalWrite_def powerRails_setProps_other elim!: withPin_cases)
next
  case (AnalogWrite p v)
  with assms show ?thesis
    by (auto simp: analogWrite_def powerRails_setProps_other elim!: withPin_cases)
next
  case (SetAnalogValue p v)
  with assms show ?thesis
    by (auto simp: setAnalogValue_def powerRails_setProps_keep elim!: withPin_cases)
next
  case (ConnectPin p c n)
  with assms show ?thesis
    by (auto simp: connectPin_def powerRails_setProps_keep elim!: withPin_cases)
next
  case (DisconnectPin p)
  with assms show ?thesis
    by (auto simp: disconnectPin_def powerRails_setProps_keep elim!: withPin_cases)
qed

lemma powerRails_applyOps:
  "applyOps h pm xs = Some pm' \<Longrightarrow>
   \<forall>x \<in> set xs. setsModeOrValue x \<longrightarrow> toStr h (opPin x) \<notin> set powerKeys \<Longrightarrow>
   powerRails pm' = powerRails pm"
proof (induction xs arbitrary: pm)
  case Nil
  then show ?case by simp
next
  case (Cons x xs)
  from Cons.prems(1) obtain pm1 where s: "applyOp h pm x = Some pm1" "applyOps h pm1 xs = Some pm'"
    by (auto split: option.splits)
  have "powerRails pm1 = powerRails pm"
    using powerRails_applyOp [OF s(1)] Cons.prems(2) by simp
  moreover have "powerRails pm' = powerRails pm1"
    using Cons.IH [OF s(2)] Cons.prems(2) by simp
  ultimately show ?case by simp
qed

lemma initPins_keys:
  "map fst initPins = [''0'', ''1'', ''2'', ''3'', ''4'', ''5'', ''12'', ''13'', ''14'', ''15'',
     ''16'', ''17'', ''18'', ''19'', ''21'', ''22'', ''23'', ''25'', ''26'', ''27'', ''32'', ''33'',
     ''34'', ''35'', ''36'', ''39'', ''3V3'', ''GND'', ''VIN'']"
  by (simp add: initPins_def gpios_def natStr.simps digitChar_def)

lemma powerRails_new:
  "powerRails newPinManager =
     [Some (Some (Str ''POWER''), Some (Num (Fin 1))),
      Some (Some (Str ''POWER''), Some (Num (Fin 0))),
      Some (Some (Str ''POWER''), Some (Num (Fin 1)))]"
  by (simp add: powerRails_def newPinManager_def initPins_def powerKeys_def gpios_def
        natStr.simps digitChar_def powerPin_def noProps_def)

text \<open>
  C2, as the code has it. No method of the PinManager treats the power-rail pins
  specially: \<open>pinMode\<close>, \<open>digitalWrite\<close> and \<open>analogWrite\<close> change the mode or the value
  of whichever pin they are given. What holds is that after every sequence of calls in
  which these three are not applied to \<open>3V3\<close>, \<open>GND\<close> or \<open>VIN\<close>, the three pins still
  have the mode \<open>POWER\<close> and the values 1, 0 and 1 they were created with;
  \<open>setAnalogValue\<close>, \<open>connectPin\<close> and \<open>disconnectPin\<close> may name any pin.
\<close>

theorem power_rails_kept:
  assumes "applyOps h newPinManager xs = Some pm'"
    and "\<forall>x \<in> set xs. setsModeOrValue x \<longrightarrow> toStr h (opPin x) \<notin> set powerKeys"
  shows "powerRails pm' =
     [Some (Some (Str ''POWER''), Some (Num (Fin 1))),
      Some (Some (Str ''POWER''), Some (Num (Fin 0))),
      Some (Some (Str ''POWER''), Some (Num (Fin 1)))]"
  using powerRails_applyOps [OF assms] powerRails_new by simp

text \<open>
  C2 as stated fails: \<open>pinMode('3V3', 'OUTPUT')\<close> followed by \<open>digitalWrite('GND', 1)\<close>
  leaves \<open>3V3\<close> in mode \<open>OUTPUT\<close> and \<open>GND\<close> with the value 1.
\<close>

theorem power_rails_changed:
  "map_option powerRails
     (applyOps testHost newPinManager
        [PinMode (Str ''3V3'') (Str ''OUTPUT''), DigitalWrite (Str ''GND'') (Num (Fin 1))]) =
     Some [Some (Some (Str ''OUTPUT''), Some (Num (Fin 1))),
           Some (Some (Str ''POWER''), Some (Num (Fin 1))),
           Some (Some (Str ''POWER''), Some (Num (Fin 1)))]"
  by (simp add: powerRails_def pinMode_def digitalWrite_def withPin_def lookupPin_def
        setProps_def newPinManager_def initPins_def powerKeys_def gpios_def
        natStr.simps digitChar_def powerPin_def noProps_def)

theorem power_rails_kept_witness:
  "applyOps testHost newPinManager
     [DigitalWrite (Str ''2'') (Num (Fin 1)), ConnectPin (Str ''GND'') (Str ''led1'') (Str ''led'')] \<noteq> None
   \<and> map_option powerRails (applyOps testHost newPinManager
     [DigitalWrite (Str ''2'') (Num (Fin 1)), ConnectPin (Str ''GND'') (Str ''led1'') (Str ''led'')]) =
     Some [Some (Some (Str ''POWER''), Some (Num (Fin 1))),
           Some (Some (Str ''POWER''), Some (Num (Fin 0))),
           Some (Some (Str ''POWER''), Some (Num (Fin 1)))]"
proof -
  let ?xs = "[DigitalWrite (Str ''2'') (Num (Fin 1)), ConnectPin (Str ''GND'') (Str ''led1'') (Str ''led'')]"
  have a: "applyOps testHost newPinManager ?xs \<noteq> None"
    by (simp add: digitalWrite_def connectPin_def withPin_def lookupPin_def setProps_def
          notify_def newPinManager_def initPins_def gpios_def natStr.simps digitChar_def)
  then obtain pm' where b: "applyOps testHost newPinManager ?xs = Some pm'"
    by blast
  have c: "\<forall>x \<in> set ?xs. setsModeOrValue x \<longrightarrow> toStr testHost (opPin x) \<notin> set powerKeys"
    by (simp add: powerKeys_def)
  show ?thesis
    unfolding b using power_rails_kept [OF b c] by simp
qed

text \<open>
  C4, where it holds: a key that is neither a pin of the table nor a property inherited
  from \<open>Object.prototype\<close> reads as 0 and is ignored by every method that writes.
\<close>

lemma unknown_pin_ignored:
  assumes "lookupPin pm (toStr h p) = None"
  shows "digitalRead h pm p = Num (Fin 0)" and "analogRead h pm p = Num (Fin 0)"
    and "pinMode h pm p m = Some pm" and "digitalWrite h pm p v = Some pm"
    and "analogWrite h pm p v = Some pm" and "setAnalogValue h pm p v = Some pm"
    and "connectPin h pm p c n = Some pm" and "disconnectPin h pm p = Some pm"
  using assms
  by (simp_all add: digitalRead_def analogRead_def pinMode_def digitalWrite_def analogWrite_def
        setAnalogValue_def connectPin_def disconnectPin_def withPin_def)

text \<open>
  C4 at a key the table inherits. \<open>toString\<close> is no pin of the table, yet
  \<open>this.pins['toString']\<close> is the function \<open>Object.prototype.toString\<close>, which passes the
  guard \<open>if (this.pins[pin])\<close>: \<open>digitalRead('toString')\<close> returns \<open>undefined\<close>, the
  \<open>value\<close> of that function, and \<open>pinMode('toString', 'OUTPUT')\<close> notifies the listeners.
\<close>

theorem inherited_key_not_ignored:
  "map_of (pins newPinManager) ''toString'' = None \<and>
   digitalRead testHost newPinManager (Str ''toString'') = Undefined \<and>
   map_option notified (pinMode testHost newPinManager (Str ''toString'') (Str ''OUTPUT'')) =
     Some [(Str ''toString'', noProps \<lparr> mode := Some (Str ''OUTPUT'') \<rparr>)]"
  by (simp add: digitalRead_def pinMode_def withPin_def lookupPin_def setProps_def notify_def
        getProp_def props_def protoKeys_def
        newPinManager_def initPins_def gpios_def natStr.simps digitChar_def noProps_def)






section \<open>Function calls\<close>



section \<open>Exceptions\<close>







end
